theory Spec2Isabelle
  imports Complex_Main
begin

section \<open>JavaScript values and strings\<close>

text \<open>
  The two Cloud Function handlers \<open>fetchLichessGame\<close> (basic) and
  \<open>fetchLichessGameAdvanced\<close> (advanced) are embedded below. A JavaScript string is a
  list of code units, here HOL's 8-bit \<open>char\<close> (the Latin-1 range); a number is a
  real, an infinity or \<open>NaN\<close> (the two zeros are one value: nothing in the handlers
  tells them apart); an object is an association list of its own enumerable
  properties. Logging to the console and the two listeners that
  the advanced handler registers on the page (one continues every request, the other
  fills a list that nothing reads) have no part in what the handlers return and are left
  out. The value that the extraction returns in the page is taken to reach the handler
  as it is. A handler that ends by throwing has sent no response.
\<close>

datatype js_error = Error (message: string) (stack: string)

datatype number = Finite real | PInfinity | NInfinity | NaN

text \<open>JSON data: what a query string or a JSON request body can carry.\<close>

datatype json =
    JNull
  | JBool bool
  | JNum number
  | JStr string
  | JArr "json list"
  | JObj "(string \<times> json) list"

text \<open>Values of the page context. \<open>VHost\<close> is any other object (a DOM node, a cyclic
  structure): its \<open>typeof\<close> is \<open>object\<close> and nothing else is known of it.\<close>

datatype jsval =
    VUndefined
  | VNull
  | VBool bool
  | VNum number
  | VStr string
  | VSymbol string
  | VBigInt int
  | VFunction string
  | VArray "jsval list"
  | VObject "(string \<times> jsval) list"
  | VHost string

fun typeof :: "jsval \<Rightarrow> string" where
  "typeof VUndefined = ''undefined''"
| "typeof VNull = ''object''"
| "typeof (VBool b) = ''boolean''"
| "typeof (VNum n) = ''number''"
| "typeof (VStr s) = ''string''"
| "typeof (VSymbol s) = ''symbol''"
| "typeof (VBigInt n) = ''bigint''"
| "typeof (VFunction src) = ''function''"
| "typeof (VArray xs) = ''object''"
| "typeof (VObject ps) = ''object''"
| "typeof (VHost h) = ''object''"

text \<open>Truthiness of request data; \<open>None\<close> is \<open>undefined\<close> (a missing property).\<close>

fun truthy :: "json option \<Rightarrow> bool" where
  "truthy None = False"
| "truthy (Some JNull) = False"
| "truthy (Some (JBool b)) = b"
| "truthy (Some (JNum n)) = (n \<noteq> Finite 0 \<and> n \<noteq> NaN)"
| "truthy (Some (JStr s)) = (s \<noteq> [])"
| "truthy (Some (JArr xs)) = True"
| "truthy (Some (JObj ps)) = True"

text \<open>\<open>a || b\<close>\<close>

definition js_or :: "json option \<Rightarrow> json option \<Rightarrow> json option" where
  "js_or a b = (if truthy a then a else b)"

subsection \<open>String methods\<close>

definition startsWith :: "string \<Rightarrow> string \<Rightarrow> bool" where
  "startsWith s pre = (take (length pre) s = pre)"

fun includes_str :: "string \<Rightarrow> string \<Rightarrow> bool" where
  "includes_str [] sub = (sub = [])"
| "includes_str (c # cs) sub = (startsWith (c # cs) sub \<or> includes_str cs sub)"

definition lower_char :: "char \<Rightarrow> char" where
  "lower_char c =
     (let n = (of_char c :: nat)
      in if (65 \<le> n \<and> n \<le> 90) \<or> (192 \<le> n \<and> n \<le> 222 \<and> n \<noteq> 215)
         then char_of (n + 32) else c)"

definition toLowerCase :: "string \<Rightarrow> string" where
  "toLowerCase s = map lower_char s"

text \<open>White space and line terminators of the Latin-1 range.\<close>

definition is_space :: "char \<Rightarrow> bool" where
  "is_space c = ((of_char c :: nat) \<in> {9, 10, 11, 12, 13, 32, 160})"

definition trimStart :: "string \<Rightarrow> string" where
  "trimStart s = dropWhile is_space s"

definition trim :: "string \<Rightarrow> string" where
  "trim s = rev (dropWhile is_space (rev (dropWhile is_space s)))"

text \<open>\<open>s.substring(0, n)\<close>\<close>

definition substring0 :: "string \<Rightarrow> nat \<Rightarrow> string" where
  "substring0 s n = take n s"

subsection \<open>\<open>ToString\<close> and \<open>parseInt\<close>\<close>

text \<open>
  What the handlers take from the JavaScript engine and this development leaves open: the
  text of a number (\<open>Number.prototype.toString\<close>: the shortest decimal that reads back,
  in exponent notation from \<open>1e21\<close>) and the \<open>TypeError\<close> that the engine throws for an
  object with no primitive value.
\<close>

record engine =
  number_toString :: "number \<Rightarrow> string"
  conversion_error :: js_error

fun join_comma :: "string list \<Rightarrow> string" where
  "join_comma [] = []"
| "join_comma [s] = s"
| "join_comma (s # t # ss) = s @ '','' @ join_comma (t # ss)"

text \<open>
  \<open>ToString\<close> on request data, as a template literal and \<open>parseInt\<close> apply it. An array
  is joined with commas, \<open>null\<close> elements giving the empty string. An object parsed from
  JSON has data properties only: with an own property \<open>toString\<close> it has no callable
  \<open>toString\<close>, \<open>valueOf\<close> gives no primitive, and the conversion throws; without one
  it inherits \<open>Object.prototype.toString\<close>.
\<close>

fun to_string :: "engine \<Rightarrow> json \<Rightarrow> js_error + string"
  and elements_to_string :: "engine \<Rightarrow> json list \<Rightarrow> js_error + string list" where
  "to_string js JNull = Inr ''null''"
| "to_string js (JBool b) = Inr (if b then ''true'' else ''false'')"
| "to_string js (JNum n) = Inr (number_toString js n)"
| "to_string js (JStr s) = Inr s"
| "to_string js (JArr xs) =
     (case elements_to_string js xs of Inl e \<Rightarrow> Inl e | Inr ss \<Rightarrow> Inr (join_comma ss))"
| "to_string js (JObj ps) =
     (if map_of ps ''toString'' \<noteq> None then Inl (conversion_error js)
      else Inr ''[object Object]'')"
| "elements_to_string js [] = Inr []"
| "elements_to_string js (x # xs) =
     (case (if x = JNull then Inr [] else to_string js x) of
        Inl e \<Rightarrow> Inl e
      | Inr s \<Rightarrow> (case elements_to_string js xs of Inl e \<Rightarrow> Inl e | Inr ss \<Rightarrow> Inr (s # ss)))"

definition digit_val :: "char \<Rightarrow> nat option" where
  "digit_val c =
     (let n = (of_char c :: nat)
      in if 48 \<le> n \<and> n \<le> 57 then Some (n - 48)
         else if 97 \<le> n \<and> n \<le> 122 then Some (n - 87)
         else if 65 \<le> n \<and> n \<le> 90 then Some (n - 55)
         else None)"

definition is_radix_digit :: "nat \<Rightarrow> char \<Rightarrow> bool" where
  "is_radix_digit R c = (case digit_val c of None \<Rightarrow> False | Some d \<Rightarrow> d < R)"

definition radix_value :: "nat \<Rightarrow> string \<Rightarrow> nat" where
  "radix_value R Z = foldl (\<lambda>acc c. acc * R + the (digit_val c)) 0 Z"

text \<open>
  The Number value for a natural number: the nearest double, a tie going to the even
  significand of 53 bits, and \<open>Infinity\<close> from \<open>2^1024\<close> on.
\<close>

fun bit_length :: "nat \<Rightarrow> nat" where
  "bit_length n = (if n = 0 then 0 else Suc (bit_length (n div 2)))"

declare bit_length.simps [simp del]

definition nearest_double :: "nat \<Rightarrow> number" where
  "nearest_double n =
     (if n < 9007199254740992 then Finite (real n)
      else
        let e = bit_length n - 53;
            q = n div 2 ^ e;
            r = n mod 2 ^ e;
            m = (if 2 ^ e < 2 * r \<or> (2 * r = 2 ^ e \<and> odd q) then q + 1 else q) * 2 ^ e
        in if 2 ^ 1024 \<le> m then PInfinity else Finite (real m))"

definition negate :: "number \<Rightarrow> number" where
  "negate x =
     (case x of Finite r \<Rightarrow> Finite (- r) | PInfinity \<Rightarrow> NInfinity
      | NInfinity \<Rightarrow> PInfinity | NaN \<Rightarrow> NaN)"

text \<open>
  \<open>parseInt(string)\<close> with no radix, after ECMAScript: leading white space is dropped, a
  sign is read, a \<open>0x\<close>/\<open>0X\<close> prefix selects radix 16, the longest prefix of digits is
  read, no digit at all gives \<open>NaN\<close>, and the integer read becomes a Number
  (\<open>9007199254740992\<close> is \<open>2^53\<close>).
\<close>

definition parseInt_str :: "string \<Rightarrow> number" where
  "parseInt_str inputString =
     (let S = trimStart inputString;
          sign = (if S \<noteq> [] \<and> hd S = CHR ''-'' then - 1 else (1::int));
          S = (if S \<noteq> [] \<and> (hd S = CHR ''+'' \<or> hd S = CHR ''-'') then tl S else S);
          hex = (length S \<ge> 2 \<and> (take 2 S = ''0x'' \<or> take 2 S = ''0X''));
          R = (if hex then 16 else 10);
          S = (if hex then drop 2 S else S);
          Z = takeWhile (is_radix_digit R) S;
          mathInt = radix_value R Z
      in if Z = [] then NaN
         else if sign < 0 then negate (nearest_double mathInt) else nearest_double mathInt)"

subsection \<open>Objects\<close>

fun set_prop :: "(string \<times> 'a) list \<Rightarrow> string \<Rightarrow> 'a \<Rightarrow> (string \<times> 'a) list" where
  "set_prop [] k v = [(k, v)]"
| "set_prop ((k', v') # ps) k v =
     (if k' = k then (k, v) # ps else (k', v') # set_prop ps k v)"

text \<open>
  \<open>o[k]\<close> on an own property and \<open>o[k] = v\<close>; the handlers apply them to objects that
  they have made themselves. An assignment to the key \<open>__proto__\<close> goes to the inherited
  accessor and makes no own property.
\<close>

fun get :: "jsval \<Rightarrow> string \<Rightarrow> jsval" where
  "get (VObject ps) k = (case map_of ps k of None \<Rightarrow> VUndefined | Some v \<Rightarrow> v)"
| "get v k = VUndefined"

fun put :: "jsval \<Rightarrow> string \<Rightarrow> jsval \<Rightarrow> jsval" where
  "put (VObject ps) k v = (if k = ''__proto__'' then VObject ps else VObject (set_prop ps k v))"
| "put x k v = x"

text \<open>\<open>o[k1][k2] = v\<close>\<close>

definition put_in :: "jsval \<Rightarrow> string \<Rightarrow> string \<Rightarrow> jsval \<Rightarrow> jsval" where
  "put_in d k1 k2 v = put d k1 (put (get d k1) k2 v)"

fun items :: "jsval \<Rightarrow> jsval list" where
  "items (VArray xs) = xs"
| "items v = []"

section \<open>The page context\<close>

record element =
  tagName :: string
  elem_id :: string
  className :: string
  attributes :: "(string \<times> string) list"
  textContent :: string

definition getAttribute :: "element \<Rightarrow> string \<Rightarrow> jsval" where
  "getAttribute el name = (case map_of (attributes el) name of None \<Rightarrow> VNull | Some v \<Rightarrow> VStr v)"

text \<open>
  The rendered page as the extraction sees it. The operations that the source guards
  with a \<open>try\<close> somewhere (\<open>querySelectorAll\<close>, \<open>window[key]\<close>, \<open>localStorage\<close>,
  \<open>JSON.parse\<close>, \<open>JSON.stringify\<close>) may throw: they return \<open>Inl\<close> of the error.
  \<open>JSON.stringify\<close> returns \<open>None\<close> for \<open>undefined\<close>.
\<close>

record page =
  getElementById :: "string \<Rightarrow> element option"
  windowKeys :: "string list"
  windowGet :: "string \<Rightarrow> js_error + jsval"
  title :: string
  href :: string
  querySelectorAll :: "string \<Rightarrow> js_error + element list"
  localStorageKeys :: "js_error + string list"
  localStorageGetItem :: "string \<Rightarrow> js_error + jsval"
  JSON_parse :: "string \<Rightarrow> js_error + jsval"
  JSON_stringify :: "jsval \<Rightarrow> js_error + string option"

text \<open>\<open>Array.from(el.attributes).map(attr => ({name: attr.name, value: attr.value}))\<close>\<close>

definition attributes_of :: "element \<Rightarrow> jsval" where
  "attributes_of el =
     VArray (map (\<lambda>(n, v). VObject [(''name'', VStr n), (''value'', VStr v)]) (attributes el))"

section \<open>The basic variant: extraction\<close>

text \<open>Line numbers in this section are those of \<open>src/unnamed/part_000\<close>. Lines 70-77:
  the \<open>page-init-data\<close> script (lines 328-335 of the advanced variant are the same).\<close>

definition pageInit_step :: "page \<Rightarrow> jsval \<Rightarrow> jsval" where
  "pageInit_step p data =
     (case getElementById p ''page-init-data'' of
        None \<Rightarrow> data
      | Some pageInitScript \<Rightarrow>
          (case JSON_parse p (trim (textContent pageInitScript)) of
             Inr v \<Rightarrow> put data ''pageInitData'' v
           | Inl e \<Rightarrow> data))"

text \<open>Lines 83-102: the scan of \<open>window\<close>.\<close>

definition basic_key_filter :: "string \<Rightarrow> bool" where
  "basic_key_filter key =
     (includes_str key ''lichess'' \<or> includes_str key ''extension'' \<or>
      includes_str key ''chess'' \<or> startsWith key ''__'')"

definition basic_scan_key :: "page \<Rightarrow> string \<Rightarrow> jsval \<Rightarrow> jsval" where
  "basic_scan_key p key data =
     (case windowGet p key of
        Inr val \<Rightarrow>
          (if typeof val = ''object'' \<or> typeof val = ''string'' \<or> typeof val = ''number''
           then put_in data ''extensionData'' key val
           else data)
      | Inl e \<Rightarrow> data)"

definition basic_window_step :: "page \<Rightarrow> jsval \<Rightarrow> jsval" where
  "basic_window_step p data =
     (let keys = filter basic_key_filter (windowKeys p)
      in if length keys > 0
         then fold (basic_scan_key p) keys (put data ''extensionData'' (VObject []))
         else data)"

text \<open>An error that no \<open>try\<close> catches ends the evaluation: the rest is skipped.\<close>

definition bind :: "js_error + 'a \<Rightarrow> ('a \<Rightarrow> js_error + 'b) \<Rightarrow> js_error + 'b" where
  "bind m f = (case m of Inl e \<Rightarrow> Inl e | Inr x \<Rightarrow> f x)"

text \<open>Lines 105-112: title, URL and the move list. The query is not guarded.\<close>

definition basic_title_step :: "page \<Rightarrow> jsval \<Rightarrow> jsval" where
  "basic_title_step p data =
     put_in (put_in data ''additionalData'' ''title'' (VStr (title p)))
       ''additionalData'' ''url'' (VStr (href p))"

definition basic_moves_put :: "element list \<Rightarrow> jsval \<Rightarrow> jsval" where
  "basic_moves_put moves data =
     (if length moves > 0
      then put_in data ''additionalData'' ''moves''
             (VArray (map (\<lambda>m. VStr (textContent m)) moves))
      else data)"

definition basic_moves_step :: "page \<Rightarrow> jsval \<Rightarrow> js_error + jsval" where
  "basic_moves_step p data =
     bind (querySelectorAll p ''.moves move'') (\<lambda>moves. Inr (basic_moves_put moves data))"

text \<open>Lines 115-121: analysis markers.\<close>

definition basic_analysis_put :: "element list \<Rightarrow> jsval \<Rightarrow> jsval" where
  "basic_analysis_put analysisElements data =
     (if length analysisElements > 0
      then put_in data ''additionalData'' ''analysis''
             (VArray (map (\<lambda>el. VObject
                [(''analysis'', getAttribute el ''data-analysis''),
                 (''text'', VStr (textContent el))]) analysisElements))
      else data)"

definition basic_analysis_step :: "page \<Rightarrow> jsval \<Rightarrow> js_error + jsval" where
  "basic_analysis_step p data =
     bind (querySelectorAll p ''[data-analysis]'')
       (\<lambda>analysisElements. Inr (basic_analysis_put analysisElements data))"

text \<open>Lines 124-135: elements that extensions may have added.\<close>

definition basic_custom_selector :: string where
  "basic_custom_selector =
     ''[data-lichess-tools], [data-extension], [class*='' @ [CHR 0x22] @ ''extension'' @ [CHR 0x22] @ '']''"

definition basic_custom_element :: "element \<Rightarrow> jsval" where
  "basic_custom_element el =
     VObject [(''tagName'', VStr (tagName el)),
              (''className'', VStr (className el)),
              (''attributes'', attributes_of el),
              (''textContent'', VStr (substring0 (textContent el) 500))]"

definition basic_custom_put :: "element list \<Rightarrow> jsval \<Rightarrow> jsval" where
  "basic_custom_put customDataElements data =
     (if length customDataElements > 0
      then put_in data ''additionalData'' ''extensionElements''
             (VArray (map basic_custom_element customDataElements))
      else data)"

definition basic_custom_step :: "page \<Rightarrow> jsval \<Rightarrow> js_error + jsval" where
  "basic_custom_step p data =
     bind (querySelectorAll p basic_custom_selector)
       (\<lambda>customDataElements. Inr (basic_custom_put customDataElements data))"

definition basic_initial_data :: jsval where
  "basic_initial_data =
     VObject [(''pageInitData'', VNull), (''extensionData'', VNull),
              (''additionalData'', VObject [])]"

text \<open>Lines 62-138: the function evaluated in the page. An error that no \<open>try\<close> of
  the function catches leaves it (\<open>Inl\<close>).\<close>

definition basic_extract :: "page \<Rightarrow> js_error + jsval" where
  "basic_extract p =
     (let data = basic_initial_data;
          data = pageInit_step p data;
          data = basic_window_step p data;
          data = basic_title_step p data
      in bind (basic_moves_step p data) (\<lambda>data.
         bind (basic_analysis_step p data) (\<lambda>data.
         basic_custom_step p data)))"

section \<open>The advanced variant: extraction\<close>

text \<open>Line numbers in this section and for the advanced handler are those of
  \<open>src/unnamed/part_001\<close>.\<close>

definition adv_initial_data :: jsval where
  "adv_initial_data =
     VObject [(''pageInitData'', VNull), (''extensionData'', VObject []),
              (''dom'', VObject []), (''localStorage'', VObject []),
              (''cookies'', VObject []), (''computedData'', VObject [])]"

text \<open>Lines 338-366: the scan of \<open>window\<close>.\<close>

definition adv_key_filter :: "string \<Rightarrow> bool" where
  "adv_key_filter key =
     (let keyLower = toLowerCase key
      in includes_str keyLower ''lichess'' \<or> includes_str keyLower ''extension'' \<or>
         includes_str keyLower ''chess'' \<or> includes_str keyLower ''tool'' \<or>
         includes_str keyLower ''plugin'' \<or> startsWith key ''__'' \<or> startsWith key ''_'')"

text \<open>\<open>JSON.parse(JSON.stringify(value))\<close>; \<open>JSON.parse(undefined)\<close> parses the text
  \<open>undefined\<close>.\<close>

definition json_clone :: "page \<Rightarrow> jsval \<Rightarrow> js_error + jsval" where
  "json_clone p val =
     bind (JSON_stringify p val)
       (\<lambda>s. JSON_parse p (case s of None \<Rightarrow> ''undefined'' | Some t \<Rightarrow> t))"

text \<open>\<open>value.toString()\<close> of a function is its source text.\<close>

fun function_toString :: "jsval \<Rightarrow> string" where
  "function_toString (VFunction src) = src"
| "function_toString v = []"

definition access_error_marker :: jsval where
  "access_error_marker = VStr ''[Error accessing property]''"

definition adv_scan_key :: "page \<Rightarrow> string \<Rightarrow> jsval \<Rightarrow> jsval" where
  "adv_scan_key p key data =
     (case windowGet p key of
        Inl e \<Rightarrow> put_in data ''extensionData'' key access_error_marker
      | Inr val \<Rightarrow>
          (if val \<noteq> VNull \<and> val \<noteq> VUndefined
           then (if typeof val = ''object''
                 then (case json_clone p val of
                         Inl e \<Rightarrow> put_in data ''extensionData'' key access_error_marker
                       | Inr v \<Rightarrow> put_in data ''extensionData'' key v)
                 else if typeof val = ''function''
                 then put_in data ''extensionData'' key
                        (VStr (substring0 (function_toString val) 200))
                 else put_in data ''extensionData'' key val)
           else data))"

definition adv_window_step :: "page \<Rightarrow> jsval \<Rightarrow> jsval" where
  "adv_window_step p data =
     (let interestingKeys = filter adv_key_filter (windowKeys p)
      in fold (adv_scan_key p) interestingKeys data)"

text \<open>Lines 369-384: \<open>localStorage\<close>.\<close>

definition storage_key_filter :: "string \<Rightarrow> bool" where
  "storage_key_filter key =
     (includes_str (toLowerCase key) ''lichess'' \<or> includes_str (toLowerCase key) ''chess'' \<or>
      includes_str (toLowerCase key) ''extension'')"

definition adv_storage_key :: "page \<Rightarrow> string \<Rightarrow> jsval \<Rightarrow> jsval" where
  "adv_storage_key p key data =
     (case localStorageGetItem p key of
        Inl e \<Rightarrow> data
      | Inr val \<Rightarrow>
          (if storage_key_filter key then put_in data ''localStorage'' key val else data))"

definition adv_storage_step :: "page \<Rightarrow> jsval \<Rightarrow> jsval" where
  "adv_storage_step p data =
     (case localStorageKeys p of
        Inl e \<Rightarrow> data
      | Inr keys \<Rightarrow> fold (adv_storage_key p) keys data)"

text \<open>Lines 387-412: title, URL, moves, players, evaluations. No query is guarded.\<close>

definition adv_title_step :: "page \<Rightarrow> jsval \<Rightarrow> jsval" where
  "adv_title_step p data =
     put_in (put_in data ''dom'' ''title'' (VStr (title p))) ''dom'' ''url'' (VStr (href p))"

definition adv_moves_put :: "element list \<Rightarrow> jsval \<Rightarrow> jsval" where
  "adv_moves_put moveElements data =
     (if length moveElements > 0
      then put_in data ''dom'' ''moves''
             (VArray (map (\<lambda>m. VStr (trim (textContent m))) moveElements))
      else data)"

definition adv_moves_step :: "page \<Rightarrow> jsval \<Rightarrow> js_error + jsval" where
  "adv_moves_step p data =
     bind (querySelectorAll p ''.moves move, move'')
       (\<lambda>moveElements. Inr (adv_moves_put moveElements data))"

definition adv_players_put :: "element list \<Rightarrow> jsval \<Rightarrow> jsval" where
  "adv_players_put playerElements data =
     (if length playerElements > 0
      then put_in data ''dom'' ''players''
             (VArray (map (\<lambda>pl. VObject
                [(''text'', VStr (trim (textContent pl))),
                 (''classes'', VStr (className pl))]) playerElements))
      else data)"

definition adv_players_step :: "page \<Rightarrow> jsval \<Rightarrow> js_error + jsval" where
  "adv_players_step p data =
     bind (querySelectorAll p ''.ruser, .player'')
       (\<lambda>playerElements. Inr (adv_players_put playerElements data))"

definition adv_evaluations_put :: "element list \<Rightarrow> jsval \<Rightarrow> jsval" where
  "adv_evaluations_put evalElements data =
     (if length evalElements > 0
      then put_in data ''dom'' ''evaluations''
             (VArray (map (\<lambda>el. VObject
                [(''eval'', getAttribute el ''data-eval''),
                 (''text'', VStr (trim (textContent el)))]) evalElements))
      else data)"

definition adv_evaluations_step :: "page \<Rightarrow> jsval \<Rightarrow> js_error + jsval" where
  "adv_evaluations_step p data =
     bind (querySelectorAll p ''[data-eval], .eval, .evaluation'')
       (\<lambda>evalElements. Inr (adv_evaluations_put evalElements data))"

text \<open>Lines 415-444: the extension selectors, each query in its own \<open>try\<close>.\<close>

definition extensionSelectors :: "string list" where
  "extensionSelectors =
     [''[data-lichess-tools]'',
      ''[data-extension]'',
      ''[class*='' @ [CHR 0x22] @ ''extension'' @ [CHR 0x22] @ '']'',
      ''[class*='' @ [CHR 0x22] @ ''tool'' @ [CHR 0x22] @ '']'',
      ''[class*='' @ [CHR 0x22] @ ''enhanced'' @ [CHR 0x22] @ '']'',
      ''[id*='' @ [CHR 0x22] @ ''extension'' @ [CHR 0x22] @ '']'',
      ''[id*='' @ [CHR 0x22] @ ''tool'' @ [CHR 0x22] @ '']'']"

text \<open>\<open>selector.replace(/[\[\]"'*]/g, '')\<close>\<close>

definition selector_key :: "string \<Rightarrow> string" where
  "selector_key selector =
     filter (\<lambda>c. c \<noteq> CHR ''['' \<and> c \<noteq> CHR '']'' \<and> c \<noteq> CHR 0x22 \<and> c \<noteq> CHR 0x27 \<and> c \<noteq> CHR ''*'')
       selector"

definition adv_custom_element :: "element \<Rightarrow> jsval" where
  "adv_custom_element el =
     VObject [(''tag'', VStr (tagName el)),
              (''id'', VStr (elem_id el)),
              (''classes'', VStr (className el)),
              (''attributes'', attributes_of el),
              (''text'', VStr (substring0 (textContent el) 300))]"

definition adv_selector_step :: "page \<Rightarrow> string \<Rightarrow> jsval \<Rightarrow> jsval" where
  "adv_selector_step p selector data =
     (case querySelectorAll p selector of
        Inl e \<Rightarrow> data
      | Inr elements \<Rightarrow>
          (if length elements > 0
           then put_in data ''dom'' (selector_key selector)
                  (VArray (map adv_custom_element elements))
           else data))"

definition adv_selectors_step :: "page \<Rightarrow> jsval \<Rightarrow> jsval" where
  "adv_selectors_step p data = fold (adv_selector_step p) extensionSelectors data"

text \<open>Lines 447-468: the move count and the JSON of inline scripts.\<close>

definition adv_rmoves_put :: "element list \<Rightarrow> jsval \<Rightarrow> jsval" where
  "adv_rmoves_put rmoves data =
     (if length rmoves > 0
      then put_in data ''computedData'' ''moveCount'' (VNum (Finite (real (length rmoves))))
      else data)"

definition adv_rmoves_step :: "page \<Rightarrow> jsval \<Rightarrow> js_error + jsval" where
  "adv_rmoves_step p data =
     bind (querySelectorAll p ''.rmoves move'') (\<lambda>rmoves. Inr (adv_rmoves_put rmoves data))"

definition adv_script_json :: "page \<Rightarrow> element \<Rightarrow> jsval list \<Rightarrow> jsval list" where
  "adv_script_json p script jsonScripts =
     (let content = trim (textContent script)
      in if startsWith content ''{'' \<or> startsWith content ''[''
         then (case JSON_parse p content of
                 Inr json \<Rightarrow> jsonScripts @ [json]
               | Inl e \<Rightarrow> jsonScripts)
         else jsonScripts)"

definition adv_scripts_put :: "page \<Rightarrow> element list \<Rightarrow> jsval \<Rightarrow> jsval" where
  "adv_scripts_put p scripts data =
     (let jsonScripts = fold (adv_script_json p) scripts []
      in if length jsonScripts > 0
         then put_in data ''computedData'' ''jsonScripts'' (VArray jsonScripts)
         else data)"

definition adv_scripts_step :: "page \<Rightarrow> jsval \<Rightarrow> js_error + jsval" where
  "adv_scripts_step p data =
     bind (querySelectorAll p ''script:not([src])'')
       (\<lambda>scripts. Inr (adv_scripts_put p scripts data))"

text \<open>Lines 317-471: the function evaluated in the page.\<close>

definition adv_extract :: "page \<Rightarrow> js_error + jsval" where
  "adv_extract p =
     (let data = adv_initial_data;
          data = pageInit_step p data;
          data = adv_window_step p data;
          data = adv_storage_step p data;
          data = adv_title_step p data
      in bind (adv_moves_step p data) (\<lambda>data.
         bind (adv_players_step p data) (\<lambda>data.
         bind (adv_evaluations_step p data) (\<lambda>data.
         let data = adv_selectors_step p data
         in bind (adv_rmoves_step p data) (\<lambda>data.
            adv_scripts_step p data)))))"

section \<open>The request handlers\<close>

record request =
  http_method :: string
  query :: "(string \<times> json) list"
  body :: "(string \<times> json) list option"

text \<open>\<open>req.query.name\<close> and \<open>req.body?.name\<close>; \<open>None\<close> is \<open>undefined\<close>.\<close>

definition query_param :: "request \<Rightarrow> string \<Rightarrow> json option" where
  "query_param req name = map_of (query req) name"

definition body_param :: "request \<Rightarrow> string \<Rightarrow> json option" where
  "body_param req name = (case body req of None \<Rightarrow> None | Some b \<Rightarrow> map_of b name)"

text \<open>\<open>ToString\<close> of a value read from the request, in a template literal and in
  \<open>parseInt\<close>.\<close>

definition template :: "engine \<Rightarrow> json option \<Rightarrow> js_error + string" where
  "template js v = (case v of None \<Rightarrow> Inr ''undefined'' | Some j \<Rightarrow> to_string js j)"

record envelope =
  success :: "bool option"
  gameId :: "json option"
  data :: "jsval option"
  error :: "string option"
  usage :: "string option"
  stack :: "string option"
  timestamp :: "string option"

datatype body_sent = Send string | Json envelope

record response =
  status :: nat
  headers :: "(string \<times> string) list"
  sent :: body_sent

definition no_fields :: envelope where
  "no_fields = \<lparr>success = None, gameId = None, data = None, error = None, usage = None,
                 stack = None, timestamp = None\<rparr>"

text \<open>
  What one request meets outside the handler. The renderer (Puppeteer): what each call
  returns or throws; navigation gives the page; the injected script and the settle delay
  may change it; \<open>close\<close> is indexed by the number of earlier calls of \<open>close\<close>. The
  engine \<open>js\<close>. What \<open>res.status(200).json\<close> throws, if anything, when it serialises the
  extracted data (a \<open>BigInt\<close>, a cycle). \<open>now\<close> is \<open>new Date().toISOString()\<close>.
\<close>

record environment =
  js :: engine
  json_throws :: "jsval \<Rightarrow> js_error option"
  launch :: "js_error option"
  newPage :: "js_error option"
  setRequestInterception :: "js_error option"
  setUserAgent :: "js_error option"
  goto :: "string \<Rightarrow> js_error + page"
  evaluate_script :: "json \<Rightarrow> page \<Rightarrow> js_error + page"
  waitForTimeout :: "jsval \<Rightarrow> page \<Rightarrow> js_error + page"
  content :: "page \<Rightarrow> js_error + string"
  close :: "nat \<Rightarrow> js_error option"
  now :: string

datatype event =
    Launch
  | NewPage
  | SetRequestInterception
  | SetUserAgent
  | Goto string
  | EvaluateScript json
  | WaitForTimeout jsval
  | EvaluateExtraction
  | Content
  | Close

text \<open>The state of a running handler: the renderer calls made so far and whether the
  variable \<open>browser\<close> is non-null.\<close>

record hstate =
  trace :: "event list"
  browser :: bool

type_synonym 'a run = "hstate \<Rightarrow> (js_error + 'a) \<times> hstate"

definition call :: "event \<Rightarrow> js_error + 'a \<Rightarrow> 'a run" where
  "call ev r s = (r, s\<lparr>trace := trace s @ [ev]\<rparr>)"

definition done_or :: "js_error option \<Rightarrow> js_error + unit" where
  "done_or r = (case r of None \<Rightarrow> Inr () | Some e \<Rightarrow> Inl e)"

definition and_then :: "'a run \<Rightarrow> ('a \<Rightarrow> 'b run) \<Rightarrow> 'b run" where
  "and_then m f s = (case m s of (Inl e, s') \<Rightarrow> (Inl e, s') | (Inr x, s') \<Rightarrow> f x s')"

definition set_browser :: "bool \<Rightarrow> unit run" where
  "set_browser b s = (Inr (), s\<lparr>browser := b\<rparr>)"

definition return_value :: "'a \<Rightarrow> 'a run" where
  "return_value x s = (Inr x, s)"

text \<open>A computation of the handler itself, which may throw.\<close>

definition compute :: "js_error + 'a \<Rightarrow> 'a run" where
  "compute r s = (r, s)"

definition cors_headers :: "(string \<times> string) list" where
  "cors_headers = [(''Access-Control-Allow-Origin'', ''*'')]"

definition preflight_response :: response where
  "preflight_response =
     \<lparr>status = 204,
      headers = cors_headers @
        [(''Access-Control-Allow-Methods'', ''GET, POST''),
         (''Access-Control-Allow-Headers'', ''Content-Type''),
         (''Access-Control-Max-Age'', ''3600'')],
      sent = Send []\<rparr>"

definition game_url :: "engine \<Rightarrow> json option \<Rightarrow> js_error + string" where
  "game_url eng gid =
     (case template eng gid of Inl e \<Rightarrow> Inl e | Inr t \<Rightarrow> Inr (''https://lichess.org/'' @ t))"

text \<open>The \<open>catch\<close> block of both handlers: close the renderer if \<open>browser\<close> is set,
  then answer 500. An error thrown by this \<open>close\<close> leaves the handler: no response.\<close>

definition catch_block ::
  "environment \<Rightarrow> (js_error \<Rightarrow> response) \<Rightarrow> js_error \<Rightarrow> hstate \<Rightarrow> response option \<times> event list" where
  "catch_block env respond err s =
     (if browser s
      then (case close env (count_list (trace s) Close) of
              None \<Rightarrow> (Some (respond err), trace s @ [Close])
            | Some e \<Rightarrow> (None, trace s @ [Close]))
      else (Some (respond err), trace s))"

subsection \<open>\<open>fetchLichessGame\<close>\<close>

definition basic_ok :: "environment \<Rightarrow> json option \<Rightarrow> jsval \<Rightarrow> response" where
  "basic_ok env gid gameData =
     \<lparr>status = 200, headers = cors_headers,
      sent = Json (no_fields\<lparr>success := Some True, gameId := gid, data := Some gameData,
                              timestamp := Some (now env)\<rparr>)\<rparr>"

text \<open>\<open>res.status(200).json(...)\<close>, the last statement of the \<open>try\<close> block.\<close>

definition send_ok :: "environment \<Rightarrow> json option \<Rightarrow> jsval \<Rightarrow> js_error + response" where
  "send_ok env gid gameData =
     (case json_throws env gameData of
        None \<Rightarrow> Inr (basic_ok env gid gameData)
      | Some e \<Rightarrow> Inl e)"

definition basic_try :: "environment \<Rightarrow> json option \<Rightarrow> response run" where
  "basic_try env gid =
     and_then (call Launch (done_or (launch env))) (\<lambda>_.
     and_then (set_browser True) (\<lambda>_.
     and_then (call NewPage (done_or (newPage env))) (\<lambda>_.
     and_then (call SetUserAgent (done_or (setUserAgent env))) (\<lambda>_.
     and_then (compute (game_url (js env) gid)) (\<lambda>url.
     and_then (call (Goto url) (goto env url)) (\<lambda>pg.
     and_then (call (WaitForTimeout (VNum (Finite 3000)))
                 (waitForTimeout env (VNum (Finite 3000)) pg)) (\<lambda>pg.
     and_then (call EvaluateExtraction (basic_extract pg)) (\<lambda>gameData.
     and_then (call Content (content env pg)) (\<lambda>html.
     and_then (return_value
                 (put gameData ''htmlLength'' (VNum (Finite (real (length html)))))) (\<lambda>gameData.
     and_then (call Close (done_or (close env 0))) (\<lambda>_.
     and_then (set_browser False) (\<lambda>_.
     compute (send_ok env gid gameData)))))))))))))"

definition basic_failed :: "json option \<Rightarrow> js_error \<Rightarrow> response" where
  "basic_failed gid err =
     \<lparr>status = 500, headers = cors_headers,
      sent = Json (no_fields\<lparr>success := Some False, error := Some (js_error.message err),
                              gameId := gid\<rparr>)\<rparr>"

definition basic_missing :: response where
  "basic_missing =
     \<lparr>status = 400, headers = cors_headers,
      sent = Json (no_fields\<lparr>error := Some ''Missing gameId parameter'',
        usage := Some (''Call with ?gameId=YOUR_GAME_ID or POST with {'' @ [CHR 0x22] @ ''gameId''
                       @ [CHR 0x22] @ '': '' @ [CHR 0x22] @ ''YOUR_GAME_ID'' @ [CHR 0x22] @ ''}'')\<rparr>)\<rparr>"

text \<open>The handler returns the response it sent, if any, and the renderer calls it made.\<close>

definition fetchLichessGame :: "environment \<Rightarrow> request \<Rightarrow> response option \<times> event list" where
  "fetchLichessGame env req =
     (if http_method req = ''OPTIONS'' then (Some preflight_response, [])
      else
        let gid = js_or (query_param req ''gameId'') (body_param req ''gameId'')
        in if \<not> truthy gid then (Some basic_missing, [])
           else (case basic_try env gid \<lparr>trace = [], browser = False\<rparr> of
                   (Inr r, s) \<Rightarrow> (Some r, trace s)
                 | (Inl err, s) \<Rightarrow> catch_block env (basic_failed gid) err s))"

subsection \<open>\<open>fetchLichessGameAdvanced\<close>\<close>

definition inject :: "environment \<Rightarrow> json option \<Rightarrow> page \<Rightarrow> page run" where
  "inject env customScript pg =
     (case customScript of
        None \<Rightarrow> return_value pg
      | Some script \<Rightarrow>
          (if truthy (Some script)
           then call (EvaluateScript script) (evaluate_script env script pg)
           else return_value pg))"

definition adv_try ::
  "environment \<Rightarrow> json option \<Rightarrow> json option \<Rightarrow> number \<Rightarrow> response run" where
  "adv_try env gid customScript waitTime =
     and_then (call Launch (done_or (launch env))) (\<lambda>_.
     and_then (set_browser True) (\<lambda>_.
     and_then (call NewPage (done_or (newPage env))) (\<lambda>_.
     and_then (call SetRequestInterception (done_or (setRequestInterception env))) (\<lambda>_.
     and_then (call SetUserAgent (done_or (setUserAgent env))) (\<lambda>_.
     and_then (compute (game_url (js env) gid)) (\<lambda>url.
     and_then (call (Goto url) (goto env url)) (\<lambda>pg.
     and_then (inject env customScript pg) (\<lambda>pg.
     and_then (call (WaitForTimeout (VNum waitTime))
                 (waitForTimeout env (VNum waitTime) pg)) (\<lambda>pg.
     and_then (call EvaluateExtraction (adv_extract pg)) (\<lambda>gameData.
     and_then (call Close (done_or (close env 0))) (\<lambda>_.
     and_then (set_browser False) (\<lambda>_.
     compute (send_ok env gid gameData)))))))))))))"

definition adv_failed :: "json option \<Rightarrow> js_error \<Rightarrow> response" where
  "adv_failed gid err =
     \<lparr>status = 500, headers = cors_headers,
      sent = Json (no_fields\<lparr>success := Some False, error := Some (js_error.message err),
                              stack := Some (js_error.stack err), gameId := gid\<rparr>)\<rparr>"

definition adv_missing :: response where
  "adv_missing =
     \<lparr>status = 400, headers = cors_headers,
      sent = Json (no_fields\<lparr>error := Some ''Missing gameId parameter''\<rparr>)\<rparr>"

text \<open>Line 250: the raw \<open>waitTime\<close> and the delay, \<open>parseInt\<close> of its \<open>ToString\<close>.\<close>

definition waitTime_raw :: "request \<Rightarrow> json option" where
  "waitTime_raw req =
     js_or (js_or (query_param req ''waitTime'') (body_param req ''waitTime''))
       (Some (JStr ''5000''))"

definition waitTime_of :: "engine \<Rightarrow> request \<Rightarrow> js_error + number" where
  "waitTime_of eng req =
     (case template eng (waitTime_raw req) of
        Inl e \<Rightarrow> Inl e
      | Inr inputString \<Rightarrow> Inr (parseInt_str inputString))"

text \<open>
  Line 250 runs before the check of \<open>gameId\<close> and outside the \<open>try\<close> block: when it
  throws, the handler ends with that error, having sent no response.
\<close>

definition fetchLichessGameAdvanced ::
  "environment \<Rightarrow> request \<Rightarrow> response option \<times> event list" where
  "fetchLichessGameAdvanced env req =
     (if http_method req = ''OPTIONS'' then (Some preflight_response, [])
      else
        let gid = js_or (query_param req ''gameId'') (body_param req ''gameId'');
            customScript = body_param req ''customScript''
        in (case waitTime_of (js env) req of
              Inl err \<Rightarrow> (None, [])
            | Inr waitTime \<Rightarrow>
                if \<not> truthy gid then (Some adv_missing, [])
                else (case adv_try env gid customScript waitTime
                             \<lparr>trace = [], browser = False\<rparr> of
                        (Inr r, s) \<Rightarrow> (Some r, trace s)
                      | (Inl err, s) \<Rightarrow> catch_block env (adv_failed gid) err s)))"

section \<open>Properties and example inputs\<close>

subsection \<open>The response\<close>

text \<open>The invariant of the response envelope; a body sent as text has no envelope.\<close>

definition envelope_invariant :: "response \<Rightarrow> bool" where
  "envelope_invariant r =
     (case sent r of
        Send s \<Rightarrow> True
      | Json b \<Rightarrow>
          (success b = Some False \<longrightarrow> data b = None \<and> error b \<noteq> None) \<and>
          (success b = Some True \<longrightarrow> error b = None))"

definition response_data :: "response \<Rightarrow> jsval option" where
  "response_data r = (case sent r of Send s \<Rightarrow> None | Json b \<Rightarrow> data b)"

definition response_error :: "response \<Rightarrow> string option" where
  "response_error r = (case sent r of Send s \<Rightarrow> None | Json b \<Rightarrow> error b)"

definition missing_or_empty :: "json option \<Rightarrow> bool" where
  "missing_or_empty v = (v = None \<or> v = Some (JStr []))"

subsection \<open>The request\<close>

definition request_gameId :: "request \<Rightarrow> json option" where
  "request_gameId req = js_or (query_param req ''gameId'') (body_param req ''gameId'')"

text \<open>The request passed line 250 and the validation, and the renderer was launched, set
  up and navigated to the game page, giving \<open>pg\<close> (advanced variant).\<close>

definition navigated :: "environment \<Rightarrow> request \<Rightarrow> page \<Rightarrow> bool" where
  "navigated env req pg =
     (http_method req \<noteq> ''OPTIONS'' \<and> truthy (request_gameId req) \<and>
      (case waitTime_of (js env) req of Inl e \<Rightarrow> False | Inr t \<Rightarrow> True) \<and>
      launch env = None \<and> newPage env = None \<and> setRequestInterception env = None \<and>
      setUserAgent env = None \<and>
      (case game_url (js env) (request_gameId req) of
         Inl e \<Rightarrow> False
       | Inr url \<Rightarrow> goto env url = Inr pg))"


text \<open>The page after the injection step, or the error the injected script threw.\<close>

definition injected :: "environment \<Rightarrow> request \<Rightarrow> page \<Rightarrow> js_error + page" where
  "injected env req pg =
     fst (inject env (body_param req ''customScript'') pg \<lparr>trace = [], browser = True\<rparr>)"

text \<open>A string begins with a parseable integer: after leading white space and an
  optional sign comes a decimal digit.\<close>

definition is_decimal_digit :: "char \<Rightarrow> bool" where
  "is_decimal_digit c = (48 \<le> (of_char c :: nat) \<and> (of_char c :: nat) \<le> 57)"

definition begins_with_integer :: "string \<Rightarrow> bool" where
  "begins_with_integer s =
     (let t = dropWhile is_space s;
          u = (if t \<noteq> [] \<and> (hd t = CHR ''+'' \<or> hd t = CHR ''-'') then tl t else t)
      in u \<noteq> [] \<and> is_decimal_digit (hd u))"

text \<open>The integer that a string of decimal digits denotes.\<close>

definition decimal_value :: "string \<Rightarrow> nat" where
  "decimal_value ds = foldl (\<lambda>n c. 10 * n + (of_char c - 48)) 0 ds"

text \<open>
  A text with a decimal integer in front: white space \<open>ws\<close>, a sign \<open>sg\<close> or none, the
  digits \<open>ds\<close>, and a rest that does not go on with a digit (nor makes of a single \<open>0\<close>
  the prefix \<open>0x\<close> of a hexadecimal number).
\<close>

definition integer_text :: "string \<Rightarrow> string \<Rightarrow> string \<Rightarrow> string \<Rightarrow> bool" where
  "integer_text ws sg ds rest =
     (list_all is_space ws \<and> (sg = [] \<or> sg = ''+'' \<or> sg = ''-'') \<and>
      ds \<noteq> [] \<and> list_all is_decimal_digit ds \<and>
      (rest = [] \<or>
       (\<not> is_decimal_digit (hd rest) \<and>
        \<not> (ds = ''0'' \<and> (hd rest = CHR ''x'' \<or> hd rest = CHR ''X'')))))"

subsection \<open>The extraction\<close>

fun is_object :: "jsval \<Rightarrow> bool" where
  "is_object (VObject ps) = True"
| "is_object v = False"

text \<open>\<open>Object.keys(o)\<close>\<close>

fun keys :: "jsval \<Rightarrow> string list" where
  "keys (VObject ps) = map fst ps"
| "keys v = []"

text \<open>The evaluation returned a value; a query did not throw.\<close>

definition returns :: "js_error + jsval \<Rightarrow> bool" where
  "returns r = (case r of Inl e \<Rightarrow> False | Inr d \<Rightarrow> True)"

definition query_ok :: "page \<Rightarrow> string \<Rightarrow> bool" where
  "query_ok p selector =
     (case querySelectorAll p selector of Inl e \<Rightarrow> False | Inr els \<Rightarrow> True)"

text \<open>The selectors that the extraction queries outside any \<open>try\<close>.\<close>

definition basic_unguarded :: "string list" where
  "basic_unguarded = [''.moves move'', ''[data-analysis]'', basic_custom_selector]"

definition adv_unguarded :: "string list" where
  "adv_unguarded =
     [''.moves move, move'', ''.ruser, .player'', ''[data-eval], .eval, .evaluation'',
      ''.rmoves move'', ''script:not([src])'']"

text \<open>Two evaluations end alike on the fragments \<open>ks\<close>: both throw the same error, or
  both return and the fragments under the keys \<open>ks\<close> are equal.\<close>

definition same_fragments :: "string list \<Rightarrow> js_error + jsval \<Rightarrow> js_error + jsval \<Rightarrow> bool" where
  "same_fragments ks r r' =
     (case r of
        Inl e \<Rightarrow> r' = Inl e
      | Inr d \<Rightarrow> (case r' of Inl e' \<Rightarrow> False | Inr d' \<Rightarrow> (\<forall>k \<in> set ks. get d' k = get d k)))"

definition payload_absent_or_invalid :: "page \<Rightarrow> bool" where
  "payload_absent_or_invalid p =
     (case getElementById p ''page-init-data'' of
        None \<Rightarrow> True
      | Some el \<Rightarrow>
          (case JSON_parse p (trim (textContent el)) of Inl e \<Rightarrow> True | Inr v \<Rightarrow> False))"

text \<open>The field of an entry is a string of at most 500 code units.\<close>

definition short_text :: "string \<Rightarrow> jsval \<Rightarrow> bool" where
  "short_text field entry = (case get entry field of VStr s \<Rightarrow> length s \<le> 500 | _ \<Rightarrow> False)"




text \<open>A value that JSON can carry: \<open>null\<close>, a boolean, a number, a string, an array or
  an object of such values.\<close>

fun json_serializable :: "jsval \<Rightarrow> bool"
  and all_serializable :: "jsval list \<Rightarrow> bool"
  and properties_serializable :: "(string \<times> jsval) list \<Rightarrow> bool" where
  "json_serializable VNull = True"
| "json_serializable (VBool b) = True"
| "json_serializable (VNum n) = True"
| "json_serializable (VStr s) = True"
| "json_serializable (VArray xs) = all_serializable xs"
| "json_serializable (VObject ps) = properties_serializable ps"
| "json_serializable VUndefined = False"
| "json_serializable (VSymbol s) = False"
| "json_serializable (VBigInt n) = False"
| "json_serializable (VFunction src) = False"
| "json_serializable (VHost h) = False"
| "all_serializable [] = True"
| "all_serializable (x # xs) = (json_serializable x \<and> all_serializable xs)"
| "properties_serializable [] = True"
| "properties_serializable (kv # ps) = (json_serializable (snd kv) \<and> properties_serializable ps)"

text \<open>The value the extraction returns once its unguarded queries have given their
  elements.\<close>

definition basic_data ::
  "page \<Rightarrow> element list \<Rightarrow> element list \<Rightarrow> element list \<Rightarrow> jsval" where
  "basic_data p moves analysis custom =
     basic_custom_put custom (basic_analysis_put analysis (basic_moves_put moves
       (basic_title_step p (basic_window_step p (pageInit_step p basic_initial_data)))))"

definition adv_data ::
  "page \<Rightarrow> element list \<Rightarrow> element list \<Rightarrow> element list \<Rightarrow> element list \<Rightarrow> element list \<Rightarrow>
   jsval" where
  "adv_data p moves players evals rmoves scripts =
     adv_scripts_put p scripts (adv_rmoves_put rmoves (adv_selectors_step p
       (adv_evaluations_put evals (adv_players_put players (adv_moves_put moves
         (adv_title_step p (adv_storage_step p (adv_window_step p
            (pageInit_step p adv_initial_data)))))))))"

text \<open>
  A step acts on the fragment \<open>K\<close> only: on an object it gives an object, leaves every
  other key as it was, and what it leaves under \<open>K\<close> depends on nothing but what was
  under \<open>K\<close>. Two objects agree off \<open>K\<close> when they are equal under every other key;
  they agree in \<open>K\<close> off \<open>K2\<close> when, besides, the objects under \<open>K\<close> are equal under
  every key but \<open>K2\<close>.
\<close>

definition acts_on :: "string \<Rightarrow> (jsval \<Rightarrow> jsval) \<Rightarrow> bool" where
  "acts_on K f =
     (\<forall>d. is_object d \<longrightarrow>
        is_object (f d) \<and>
        (\<forall>k. k \<noteq> K \<longrightarrow> get (f d) k = get d k) \<and>
        (\<forall>d'. is_object d' \<and> get d' K = get d K \<longrightarrow> get (f d') K = get (f d) K))"

definition agree_off :: "string \<Rightarrow> jsval \<Rightarrow> jsval \<Rightarrow> bool" where
  "agree_off K x x' =
     (is_object x \<and> is_object x' \<and> (\<forall>k. k \<noteq> K \<longrightarrow> get x' k = get x k))"

definition agree_in :: "string \<Rightarrow> string \<Rightarrow> jsval \<Rightarrow> jsval \<Rightarrow> bool" where
  "agree_in K K2 x x' =
     (agree_off K x x' \<and> is_object (get x K) \<and> is_object (get x' K) \<and>
      (\<forall>k. k \<noteq> K2 \<longrightarrow> get (get x' K) k = get (get x K) k))"

subsection \<open>Example inputs\<close>

definition example_script :: element where
  "example_script =
     \<lparr>tagName = ''SCRIPT'', elem_id = ''page-init-data'', className = [],
      attributes = [(''id'', ''page-init-data'')], textContent = '' [1] ''\<rparr>"

definition example_move :: "string \<Rightarrow> element" where
  "example_move t =
     \<lparr>tagName = ''MOVE'', elem_id = [], className = [], attributes = [], textContent = t\<rparr>"

definition example_moves :: "element list" where
  "example_moves = [example_move ''e4'', example_move '' e5 '']"

text \<open>An element with 10,000 characters of text that the custom selectors match.\<close>

definition example_badge :: element where
  "example_badge =
     \<lparr>tagName = ''DIV'', elem_id = ''badge'', className = ''badge'',
      attributes = [(''data-extension'', ''1'')], textContent = replicate 10000 CHR ''x''\<rparr>"

definition marker_object :: jsval where
  "marker_object = VObject [(''marker'', VBool True)]"

definition marker_text :: string where
  "marker_text = ''{'' @ [CHR 0x22] @ ''marker'' @ [CHR 0x22] @ '':true}''"

text \<open>A page with a payload, a global \<open>lichess\<close>, a global \<open>__hidden\<close> whose getter
  throws, two moves and one extension element.\<close>

definition example_page :: page where
  "example_page =
     \<lparr>getElementById = (\<lambda>i. if i = ''page-init-data'' then Some example_script else None),
      windowKeys = [''lichess'', ''__hidden'', ''name''],
      windowGet = (\<lambda>k. if k = ''lichess'' then Inr marker_object
                        else if k = ''__hidden'' then Inl (Error ''denied'' [])
                        else Inr (VStr [])),
      title = ''Game'',
      href = ''https://lichess.org/abcd1234'',
      querySelectorAll =
        (\<lambda>s. if s = ''.moves move'' \<or> s = ''.moves move, move''
             then Inr example_moves
             else if s = basic_custom_selector \<or> s = ''[data-extension]''
             then Inr [example_badge]
             else Inr []),
      localStorageKeys = Inr [''lichess.theme'', ''unrelated''],
      localStorageGetItem = (\<lambda>k. Inr (VStr ''dark'')),
      JSON_parse = (\<lambda>s. if s = ''[1]'' then Inr (VArray [VNum (Finite 1)])
                         else if s = marker_text then Inr marker_object
                         else Inl (Error ''SyntaxError'' [])),
      JSON_stringify = (\<lambda>v. if v = marker_object then Inr (Some marker_text)
                             else Inl (Error ''TypeError'' []))\<rparr>"

definition example_basic_data :: jsval where
  "example_basic_data = basic_data example_page example_moves [] [example_badge]"

definition example_adv_data :: jsval where
  "example_adv_data = adv_data example_page example_moves [] [] [] []"

text \<open>The same page without the payload script; with every global throwing; with
  \<open>document.querySelectorAll\<close> throwing on the move list.\<close>

definition no_payload_page :: page where
  "no_payload_page = example_page\<lparr>getElementById := (\<lambda>i. None)\<rparr>"

definition no_payload_basic_data :: jsval where
  "no_payload_basic_data = basic_data no_payload_page example_moves [] [example_badge]"

definition no_payload_adv_data :: jsval where
  "no_payload_adv_data = adv_data no_payload_page example_moves [] [] [] []"

definition denied :: js_error where
  "denied = Error ''denied'' []"

definition no_globals_page :: page where
  "no_globals_page = example_page\<lparr>windowGet := (\<lambda>k. Inl denied)\<rparr>"




definition query_error :: js_error where
  "query_error = Error ''document.querySelectorAll is not a function'' ''TypeError''"

definition broken_page :: page where
  "broken_page =
     example_page\<lparr>querySelectorAll :=
       (\<lambda>s. if s = ''.moves move'' \<or> s = ''.moves move, move'' then Inl query_error
            else querySelectorAll example_page s)\<rparr>"

text \<open>An engine for the examples, whose requests carry no number: an integer is written
  with its decimal digits.\<close>

definition digit_char :: "nat \<Rightarrow> char" where
  "digit_char d = char_of (48 + d)"

fun show_nat :: "nat \<Rightarrow> string" where
  "show_nat n = (if n < 10 then [digit_char n] else show_nat (n div 10) @ [digit_char (n mod 10)])"

declare show_nat.simps [simp del]

definition show_int :: "int \<Rightarrow> string" where
  "show_int i = (if i < 0 then CHR ''-'' # show_nat (nat (- i)) else show_nat (nat i))"

definition conversion_type_error :: js_error where
  "conversion_type_error =
     Error ''Cannot convert object to primitive value''
       ''TypeError: Cannot convert object to primitive value''"

definition example_engine :: engine where
  "example_engine =
     \<lparr>number_toString =
        (\<lambda>n. case n of Finite r \<Rightarrow> show_int \<lfloor>r\<rfloor> | PInfinity \<Rightarrow> ''Infinity''
              | NInfinity \<Rightarrow> ''-Infinity'' | NaN \<Rightarrow> ''NaN''),
      conversion_error = conversion_type_error\<rparr>"

text \<open>A renderer on which every call succeeds, and data that \<open>res.json\<close> serialises.\<close>

definition example_env :: environment where
  "example_env =
     \<lparr>js = example_engine, json_throws = (\<lambda>d. None),
      launch = None, newPage = None, setRequestInterception = None, setUserAgent = None,
      goto = (\<lambda>u. Inr example_page),
      evaluate_script = (\<lambda>script pg. Inr pg),
      waitForTimeout = (\<lambda>t pg. Inr pg),
      content = (\<lambda>pg. Inr ''<html></html>''),
      close = (\<lambda>n. None),
      now = ''2024-01-01T00:00:00.000Z''\<rparr>"

definition navigation_timeout :: js_error where
  "navigation_timeout = Error ''Navigation timeout of 30000 ms exceeded'' ''TimeoutError''"

text \<open>A renderer whose first \<open>close\<close> throws.\<close>

definition close_error :: js_error where
  "close_error = Error ''Protocol error: Connection closed'' ''ProtocolError''"

definition close_fault_env :: environment where
  "close_fault_env = example_env\<lparr>close := (\<lambda>n. if n = 0 then Some close_error else None)\<rparr>"

definition timeout_env :: environment where
  "timeout_env = example_env\<lparr>goto := (\<lambda>u. Inl navigation_timeout)\<rparr>"

definition broken_env :: environment where
  "broken_env = example_env\<lparr>goto := (\<lambda>u. Inr broken_page)\<rparr>"



definition options_request :: request where
  "options_request = \<lparr>http_method = ''OPTIONS'', query = [], body = None\<rparr>"

definition empty_id_request :: request where
  "empty_id_request = \<lparr>http_method = ''GET'', query = [(''gameId'', JStr [])], body = None\<rparr>"

definition game_request :: request where
  "game_request =
     \<lparr>http_method = ''GET'', query = [(''gameId'', JStr ''abcd1234'')], body = None\<rparr>"


definition negative_wait_request :: request where
  "negative_wait_request =
     \<lparr>http_method = ''GET'',
      query = [(''gameId'', JStr ''abcd1234''), (''waitTime'', JStr '' -5s'')],
      body = None\<rparr>"

text \<open>A request with no \<open>gameId\<close> whose body gives \<open>waitTime\<close> as an object with a
  property \<open>toString\<close>; a request whose \<open>gameId\<close> is such an object.\<close>

definition opaque_object :: json where
  "opaque_object = JObj [(''toString'', JNum (Finite 1))]"

definition opaque_wait_request :: request where
  "opaque_wait_request =
     \<lparr>http_method = ''POST'', query = [], body = Some [(''waitTime'', opaque_object)]\<rparr>"

definition opaque_id_request :: request where
  "opaque_id_request =
     \<lparr>http_method = ''POST'', query = [], body = Some [(''gameId'', opaque_object)]\<rparr>"

text \<open>A page whose only global is a \<open>BigInt\<close> named \<open>__big\<close>, and a renderer on it where
  \<open>res.json\<close> cannot serialise the data.\<close>

definition bigint_page :: page where
  "bigint_page =
     example_page\<lparr>windowKeys := [''__big''], windowGet := (\<lambda>k. Inr (VBigInt 10))\<rparr>"

definition bigint_adv_data :: jsval where
  "bigint_adv_data = adv_data bigint_page example_moves [] [] [] []"

definition serialize_error :: js_error where
  "serialize_error =
     Error ''Do not know how to serialize a BigInt''
       ''TypeError: Do not know how to serialize a BigInt''"

definition bigint_env :: environment where
  "bigint_env =
     example_env\<lparr>goto := (\<lambda>u. Inr bigint_page), json_throws := (\<lambda>d. Some serialize_error)\<rparr>"

definition wait_request :: request where
  "wait_request =
     \<lparr>http_method = ''GET'',
      query = [(''gameId'', JStr ''abcd1234''), (''waitTime'', JStr ''soon'')],
      body = None\<rparr>"

section \<open>The request lifecycle\<close>

lemmas run_defs =
  call_def and_then_def set_browser_def return_value_def compute_def done_or_def

lemma catch_block_response:
  "fst (catch_block env f err s) = Some r \<Longrightarrow> r = f err"
  by (auto simp: catch_block_def split: if_splits option.splits)

lemma catch_block_sent:
  "catch_block env f err s = (Some r, tr) \<Longrightarrow> r = f err"
  by (auto simp: catch_block_def split: if_splits option.splits)

lemma basic_try_response:
  "basic_try env gid s0 = (Inr r, s) \<Longrightarrow> \<exists>gameData. r = basic_ok env gid gameData"
  by (auto simp: basic_try_def run_defs send_ok_def
      split: sum.splits option.splits prod.splits)

lemma adv_try_response:
  "adv_try env gid cs wt s0 = (Inr r, s) \<Longrightarrow> \<exists>gameData. r = basic_ok env gid gameData"
  by (auto simp: adv_try_def inject_def run_defs send_ok_def
      split: sum.splits option.splits prod.splits if_splits)

lemma basic_ok_envelope: "envelope_invariant (basic_ok env gid gameData)"
  by (simp add: envelope_invariant_def basic_ok_def no_fields_def)

lemma basic_envelope: "fst (fetchLichessGame env req) = Some r \<Longrightarrow> envelope_invariant r"
  by (auto simp: fetchLichessGame_def Let_def envelope_invariant_def preflight_response_def
      basic_missing_def no_fields_def basic_ok_def basic_failed_def
      split: if_splits prod.splits sum.splits
      dest!: catch_block_response basic_try_response)

lemma adv_envelope: "fst (fetchLichessGameAdvanced env req) = Some r \<Longrightarrow> envelope_invariant r"
  by (auto simp: fetchLichessGameAdvanced_def Let_def envelope_invariant_def
      preflight_response_def adv_missing_def no_fields_def basic_ok_def adv_failed_def
      split: if_splits prod.splits sum.splits
      dest!: catch_block_response adv_try_response)

text \<open>
  When the renderer was launched and \<open>close\<close> does not throw, the \<open>try\<close> block either
  ends after its own \<open>close\<close> with \<open>browser\<close> reset (it returns, or sending the answer
  throws), or throws before any \<open>close\<close> with \<open>browser\<close> still set.
\<close>

lemma basic_try_close:
  assumes "launch env = None" "close env 0 = None"
    and "basic_try env gid \<lparr>trace = [], browser = False\<rparr> = (r, s)"
  shows "(count_list (trace s) Close = 1 \<and> last (trace s) = Close \<and> \<not> browser s) \<or>
         (count_list (trace s) Close = 0 \<and> browser s \<and> (\<exists>e. r = Inl e))"
  using assms
  by (auto simp: basic_try_def run_defs split: sum.splits option.splits prod.splits)

lemma adv_try_close:
  assumes "launch env = None" "close env 0 = None"
    and "adv_try env gid cs wt \<lparr>trace = [], browser = False\<rparr> = (r, s)"
  shows "(count_list (trace s) Close = 1 \<and> last (trace s) = Close \<and> \<not> browser s) \<or>
         (count_list (trace s) Close = 0 \<and> browser s \<and> (\<exists>e. r = Inl e))"
  using assms
  by (auto simp: adv_try_def inject_def run_defs
      split: sum.splits option.splits prod.splits if_splits)

lemma basic_released_once:
  assumes "Launch \<in> set (snd (fetchLichessGame env req))"
    and "launch env = None" "close env 0 = None"
  shows "count_list (snd (fetchLichessGame env req)) Close = 1 \<and>
         last (snd (fetchLichessGame env req)) = Close \<and>
         fst (fetchLichessGame env req) \<noteq> None"
proof -
  let ?gid = "js_or (query_param req ''gameId'') (body_param req ''gameId'')"
  from assms(1) have m: "http_method req \<noteq> ''OPTIONS''" "truthy ?gid"
    by (auto simp: fetchLichessGame_def Let_def split: if_splits)
  obtain r s where rs: "basic_try env ?gid \<lparr>trace = [], browser = False\<rparr> = (r, s)"
    by (cases "basic_try env ?gid \<lparr>trace = [], browser = False\<rparr>")
  from basic_try_close[OF assms(2,3) rs] m rs assms(3) show ?thesis
    by (auto simp: fetchLichessGame_def Let_def catch_block_def split: sum.splits)
qed

lemma adv_released_once:
  assumes "Launch \<in> set (snd (fetchLichessGameAdvanced env req))"
    and "launch env = None" "close env 0 = None"
  shows "count_list (snd (fetchLichessGameAdvanced env req)) Close = 1 \<and>
         last (snd (fetchLichessGameAdvanced env req)) = Close \<and>
         fst (fetchLichessGameAdvanced env req) \<noteq> None"
proof -
  let ?gid = "js_or (query_param req ''gameId'') (body_param req ''gameId'')"
  from assms(1) obtain wt where m: "http_method req \<noteq> ''OPTIONS''" "truthy ?gid"
      "waitTime_of (js env) req = Inr wt"
    by (auto simp: fetchLichessGameAdvanced_def Let_def split: if_splits sum.splits)
  let ?run = "adv_try env ?gid (body_param req ''customScript'') wt
                \<lparr>trace = [], browser = False\<rparr>"
  obtain r s where rs: "?run = (r, s)"
    by (cases ?run)
  from adv_try_close[OF assms(2,3) rs] m rs assms(3) show ?thesis
    by (auto simp: fetchLichessGameAdvanced_def Let_def catch_block_def split: sum.splits)
qed

text \<open>A 200 response carries what the one extraction returned; the basic handler has
  added \<open>htmlLength\<close> to it.\<close>

lemma basic_failed_status: "status (basic_failed gid err) = 500"
  by (simp add: basic_failed_def)

lemma adv_failed_status: "status (adv_failed gid err) = 500"
  by (simp add: adv_failed_def)

lemma basic_try_success:
  assumes "basic_try env gid \<lparr>trace = [], browser = False\<rparr> = (Inr r, s)"
  shows "count_list (trace s) EvaluateExtraction = 1 \<and>
         (\<exists>url pg0 pg gameData html.
            game_url (js env) gid = Inr url \<and> goto env url = Inr pg0 \<and>
            waitForTimeout env (VNum (Finite 3000)) pg0 = Inr pg \<and>
            basic_extract pg = Inr gameData \<and> content env pg = Inr html \<and>
            response_data r =
              Some (put gameData ''htmlLength'' (VNum (Finite (real (length html))))))"
  using assms
  by (auto simp: basic_ok_def no_fields_def response_data_def basic_try_def run_defs
      send_ok_def split: if_splits sum.splits option.splits prod.splits)

lemma basic_success:
  assumes "fetchLichessGame env req = (Some r, tr)" "status r = 200"
  shows "count_list tr EvaluateExtraction = 1 \<and>
         (\<exists>url pg0 pg gameData html.
            game_url (js env) (request_gameId req) = Inr url \<and> goto env url = Inr pg0 \<and>
            waitForTimeout env (VNum (Finite 3000)) pg0 = Inr pg \<and>
            basic_extract pg = Inr gameData \<and> content env pg = Inr html \<and>
            response_data r =
              Some (put gameData ''htmlLength'' (VNum (Finite (real (length html))))))"
proof -
  let ?gid = "request_gameId req"
  obtain x s where rs: "basic_try env ?gid \<lparr>trace = [], browser = False\<rparr> = (x, s)"
    by (cases "basic_try env ?gid \<lparr>trace = [], browser = False\<rparr>")
  from assms rs have "x = Inr r \<and> tr = trace s"
    by (cases x)
      (auto simp: fetchLichessGame_def Let_def request_gameId_def preflight_response_def
        basic_missing_def basic_failed_status
        split: if_splits dest!: catch_block_sent)
  with rs basic_try_success [of env ?gid r s] show ?thesis
    by simp
qed

lemma adv_try_success:
  assumes "adv_try env gid cs wt \<lparr>trace = [], browser = False\<rparr> = (Inr r, s)"
  shows "count_list (trace s) EvaluateExtraction = 1 \<and>
         (\<exists>url pg0 pg1 pg gameData.
            game_url (js env) gid = Inr url \<and> goto env url = Inr pg0 \<and>
            fst (inject env cs pg0 \<lparr>trace = [], browser = True\<rparr>) = Inr pg1 \<and>
            waitForTimeout env (VNum wt) pg1 = Inr pg \<and>
            adv_extract pg = Inr gameData \<and> response_data r = Some gameData)"
  using assms
  by (auto simp: basic_ok_def no_fields_def response_data_def adv_try_def inject_def run_defs
      send_ok_def split: if_splits sum.splits option.splits prod.splits)

lemma adv_success:
  assumes "fetchLichessGameAdvanced env req = (Some r, tr)" "status r = 200"
  shows "count_list tr EvaluateExtraction = 1 \<and>
         (\<exists>url wt pg0 pg1 pg gameData.
            game_url (js env) (request_gameId req) = Inr url \<and> goto env url = Inr pg0 \<and>
            injected env req pg0 = Inr pg1 \<and>
            waitTime_of (js env) req = Inr wt \<and>
            waitForTimeout env (VNum wt) pg1 = Inr pg \<and>
            adv_extract pg = Inr gameData \<and> response_data r = Some gameData)"
proof -
  let ?gid = "request_gameId req"
  from assms obtain wt where wt: "waitTime_of (js env) req = Inr wt"
    by (cases "waitTime_of (js env) req")
      (auto simp: fetchLichessGameAdvanced_def Let_def preflight_response_def
        split: if_splits)
  let ?run = "adv_try env ?gid (body_param req ''customScript'') wt
                \<lparr>trace = [], browser = False\<rparr>"
  obtain x s where rs: "?run = (x, s)"
    by (cases ?run)
  from assms rs wt have "x = Inr r \<and> tr = trace s"
    by (cases x)
      (auto simp: fetchLichessGameAdvanced_def Let_def request_gameId_def
        preflight_response_def adv_missing_def adv_failed_status
        split: if_splits dest!: catch_block_sent)
  with rs wt adv_try_success [of env ?gid "body_param req ''customScript''" wt r s]
  show ?thesis
    by (auto simp: injected_def)
qed



lemma adv_failed_fields:
  "status (adv_failed gid err) = 500 \<and>
   response_error (adv_failed gid err) = Some (js_error.message err) \<and>
   response_data (adv_failed gid err) = None"
  by (simp add: adv_failed_def response_error_def response_data_def no_fields_def)

text \<open>The settle delay is the computed \<open>waitTime\<close>, whatever it is.\<close>

lemma adv_wait_event:
  assumes "navigated env req pg" "injected env req pg = Inr pg'"
    and "waitTime_of (js env) req = Inr wt"
  shows "WaitForTimeout (VNum wt) \<in> set (snd (fetchLichessGameAdvanced env req))"
  using assms
  by (auto simp: navigated_def request_gameId_def fetchLichessGameAdvanced_def Let_def
      adv_try_def inject_def injected_def run_defs catch_block_def
      split: sum.splits option.splits prod.splits if_splits)

lemma adv_wait_only:
  assumes "WaitForTimeout t \<in> set (snd (fetchLichessGameAdvanced env req))"
  shows "waitTime_of (js env) req = Inr wt \<longrightarrow> t = VNum wt"
  using assms
  by (auto simp: fetchLichessGameAdvanced_def Let_def adv_try_def inject_def run_defs
      catch_block_def split: sum.splits option.splits prod.splits if_splits)

text \<open>Line 250 throws: the advanced handler sends nothing and calls no renderer.\<close>

lemma adv_conversion_throws:
  assumes "http_method req \<noteq> ''OPTIONS''" "waitTime_of (js env) req = Inl err"
  shows "fetchLichessGameAdvanced env req = (None, [])"
  using assms by (simp add: fetchLichessGameAdvanced_def Let_def)

subsection \<open>\<open>parseInt\<close>\<close>

lemma parseInt_nan:
  assumes "\<not> begins_with_integer s"
  shows "parseInt_str s = NaN"
proof -
  define t where "t = dropWhile is_space s"
  define u where "u = (if t \<noteq> [] \<and> (hd t = CHR ''+'' \<or> hd t = CHR ''-'') then tl t else t)"
  from assms have nb: "u = [] \<or> \<not> is_decimal_digit (hd u)"
    unfolding begins_with_integer_def Let_def u_def t_def by blast
  have nohex: "\<not> (length u \<ge> 2 \<and> (take 2 u = ''0x'' \<or> take 2 u = ''0X''))"
  proof
    assume h: "length u \<ge> 2 \<and> (take 2 u = ''0x'' \<or> take 2 u = ''0X'')"
    then obtain a b r where "u = a # b # r" by (cases u; cases "tl u") auto
    with h have "hd u = CHR ''0''" by auto
    with nb h show False by (auto simp: is_decimal_digit_def)
  qed
  have tw: "takeWhile (is_radix_digit 10) u = []"
  proof (cases u)
    case Nil
    then show ?thesis by simp
  next
    case (Cons a r)
    with nb have "\<not> is_decimal_digit a" by simp
    then have "\<not> is_radix_digit 10 a"
      by (auto simp: is_radix_digit_def digit_val_def is_decimal_digit_def Let_def
          split: option.splits if_splits)
    with Cons show ?thesis by simp
  qed
  show ?thesis
    unfolding parseInt_str_def trimStart_def Let_def
    apply (fold t_def)
    apply (fold u_def)
    using nohex tw by auto
qed

lemma radix_digit_decimal: "is_radix_digit 10 c = is_decimal_digit c"
  by (auto simp: is_radix_digit_def digit_val_def is_decimal_digit_def Let_def
      split: option.splits if_splits)

lemma radix_value_decimal:
  assumes "list_all is_decimal_digit ds"
  shows "radix_value 10 ds = decimal_value ds"
proof -
  have "foldl (\<lambda>acc c. acc * 10 + the (digit_val c)) a ds =
        foldl (\<lambda>n c. 10 * n + (of_char c - 48)) a ds" for a
    using assms
    by (induction ds arbitrary: a)
      (auto simp: is_decimal_digit_def digit_val_def Let_def mult.commute)
  then show ?thesis
    by (simp add: radix_value_def decimal_value_def)
qed

text \<open>\<open>parseInt\<close> reads a decimal integer in front of a text, with its sign.\<close>

lemma parseInt_decimal:
  assumes "integer_text ws sg ds rest"
  shows "parseInt_str (ws @ sg @ ds @ rest) =
           (if sg = ''-'' then negate (nearest_double (decimal_value ds))
            else nearest_double (decimal_value ds))"
proof -
  from assms have ws: "list_all is_space ws" and sg: "sg = [] \<or> sg = ''+'' \<or> sg = ''-''"
    and ds: "ds \<noteq> []" "list_all is_decimal_digit ds"
    and rest: "rest = [] \<or> \<not> is_decimal_digit (hd rest)"
    and nohex: "\<not> (ds = ''0'' \<and> rest \<noteq> [] \<and> (hd rest = CHR ''x'' \<or> hd rest = CHR ''X''))"
    by (auto simp: integer_text_def)
  obtain d ds' where dd: "ds = d # ds'"
    using ds(1) by (cases ds) auto
  have dig: "is_decimal_digit d"
    using ds(2) dd by simp
  have nsp: "\<not> is_space d" "d \<noteq> CHR ''+''" "d \<noteq> CHR ''-''"
    using dig by (auto simp: is_decimal_digit_def is_space_def)
  have sp: "\<not> is_space CHR ''+''" "\<not> is_space CHR ''-''"
    by (simp_all add: is_space_def)
  define u where "u = ds @ rest"
  have u: "u \<noteq> []" "hd u = d"
    using dd by (simp_all add: u_def)
  have "dropWhile is_space (ws @ sg @ u) = dropWhile is_space (sg @ u)"
    using ws by (simp add: dropWhile_append2 list_all_iff)
  also have "\<dots> = sg @ u"
    using sg nsp sp u by (cases u) auto
  finally have t: "trimStart (ws @ sg @ ds @ rest) = sg @ u"
    by (simp add: trimStart_def u_def)
  have nh: "\<not> (2 \<le> length u \<and> (take 2 u = ''0x'' \<or> take 2 u = ''0X''))"
  proof (cases ds')
    case Nil
    with dd nohex show ?thesis
      by (cases rest) (auto simp: u_def)
  next
    case (Cons e es)
    with ds(2) dd have "is_decimal_digit e"
      by simp
    then have "e \<noteq> CHR ''x''" "e \<noteq> CHR ''X''"
      by (auto simp: is_decimal_digit_def)
    with dd Cons show ?thesis
      by (simp add: u_def)
  qed
  have "takeWhile (is_radix_digit 10) rest = []"
    using rest by (cases rest) (simp_all add: radix_digit_decimal)
  then have tw: "takeWhile (is_radix_digit 10) u = ds"
    using ds(2) by (simp add: u_def takeWhile_append2 list_all_iff radix_digit_decimal)
  have z: "parseInt_str (ws @ sg @ ds @ rest) =
             (let S = sg @ u;
                  sign = (if S \<noteq> [] \<and> hd S = CHR ''-'' then - 1 else (1::int));
                  S = (if S \<noteq> [] \<and> (hd S = CHR ''+'' \<or> hd S = CHR ''-'') then tl S else S);
                  hex = (length S \<ge> 2 \<and> (take 2 S = ''0x'' \<or> take 2 S = ''0X''));
                  R = (if hex then 16 else 10);
                  S = (if hex then drop 2 S else S);
                  Z = takeWhile (is_radix_digit R) S;
                  mathInt = radix_value R Z
              in if Z = [] then NaN
                 else if sign < 0 then negate (nearest_double mathInt)
                 else nearest_double mathInt)"
    unfolding parseInt_str_def t ..
  from sg show ?thesis
  proof (elim disjE)
    assume "sg = []"
    with nh tw ds(1) nsp u show ?thesis
      unfolding z by (auto simp: Let_def radix_value_decimal [OF ds(2)])
  next
    assume "sg = ''+''"
    with nh tw ds(1) u show ?thesis
      unfolding z by (auto simp: Let_def radix_value_decimal [OF ds(2)])
  next
    assume "sg = ''-''"
    with nh tw ds(1) u show ?thesis
      unfolding z by (auto simp: Let_def radix_value_decimal [OF ds(2)])
  qed
qed

lemma waitTime_raw_cases:
  "waitTime_raw req =
     (if truthy (query_param req ''waitTime'') then query_param req ''waitTime''
      else if truthy (body_param req ''waitTime'') then body_param req ''waitTime''
      else Some (JStr ''5000''))"
  by (simp add: waitTime_raw_def js_or_def)

lemma timeout_basic_run:
  "fetchLichessGame timeout_env game_request =
     (Some (basic_failed (Some (JStr ''abcd1234'')) navigation_timeout),
      [Launch, NewPage, SetUserAgent, Goto ''https://lichess.org/abcd1234'', Close])"
  by (simp add: fetchLichessGame_def game_request_def query_param_def body_param_def js_or_def
      basic_try_def run_defs timeout_env_def example_env_def catch_block_def game_url_def
      template_def Let_def)

section \<open>The extraction: each step acts on its own fragment\<close>

lemma map_of_set_prop: "map_of (set_prop ps k v) = (map_of ps)(k \<mapsto> v)"
  by (induction ps) (auto simp: fun_eq_iff)

lemma is_object_put [simp]: "is_object (put d k v) = is_object d"
  by (cases d) simp_all

lemma get_put [simp]:
  "is_object d \<Longrightarrow>
   get (put d k v) k' = (if k' = k \<and> k \<noteq> ''__proto__'' then v else get d k')"
  by (cases d) (simp_all add: map_of_set_prop)

lemma is_object_put_in [simp]: "is_object (put_in d k1 k2 v) = is_object d"
  by (simp add: put_in_def)

lemma get_put_in [simp]:
  "is_object d \<Longrightarrow>
   get (put_in d k1 k2 v) k' =
     (if k' = k1 \<and> k1 \<noteq> ''__proto__'' then put (get d k1) k2 v else get d k')"
  by (simp add: put_in_def)

lemma acts_onI:
  assumes "\<And>d. is_object d \<Longrightarrow> is_object (f d)"
    and "\<And>d k. is_object d \<Longrightarrow> k \<noteq> K \<Longrightarrow> get (f d) k = get d k"
    and "\<And>d d'. is_object d \<Longrightarrow> is_object d' \<Longrightarrow> get d' K = get d K \<Longrightarrow> get (f d') K = get (f d) K"
  shows "acts_on K f"
  unfolding acts_on_def using assms by blast

lemma acts_on_object: "acts_on K f \<Longrightarrow> is_object d \<Longrightarrow> is_object (f d)"
  unfolding acts_on_def by blast

lemma acts_on_frame: "acts_on K f \<Longrightarrow> is_object d \<Longrightarrow> k \<noteq> K \<Longrightarrow> get (f d) k = get d k"
  unfolding acts_on_def by blast

lemma acts_on_local:
  "acts_on K f \<Longrightarrow> is_object d \<Longrightarrow> is_object d' \<Longrightarrow> get d' K = get d K \<Longrightarrow> get (f d') K = get (f d) K"
  unfolding acts_on_def by blast

lemma acts_on_id: "acts_on K (\<lambda>d. d)"
  by (rule acts_onI) simp_all

lemma acts_on_put: "acts_on K (\<lambda>d. put d K v)"
  by (rule acts_onI) auto

lemma acts_on_put_in: "acts_on K (\<lambda>d. put_in d K k2 v)"
  by (rule acts_onI) auto

lemma acts_on_comp: 
  assumes "acts_on K f" "acts_on K g" shows "acts_on K (\<lambda>d. g (f d))"
proof (rule acts_onI)
  fix d assume d: "is_object d"
  show "is_object (g (f d))" using assms d by (blast intro: acts_on_object)
  fix k assume "k \<noteq> K" then show "get (g (f d)) k = get d k"
    using assms d by (simp add: acts_on_object acts_on_frame)
next
  fix d d' assume d: "is_object d" and d': "is_object d'" "get d' K = get d K"
  have "get (f d') K = get (f d) K" using acts_on_local[OF assms(1) d d'] .
  then show "get (g (f d')) K = get (g (f d)) K"
    using acts_on_local[OF assms(2), of "f d" "f d'"] acts_on_object[OF assms(1)] d d' by blast
qed

lemma acts_on_fold:
  assumes "\<And>x. acts_on K (f x)" shows "acts_on K (fold f xs)"
proof (induction xs)
  case Nil show ?case using acts_on_id[of K] by (simp add: id_def)
next
  case (Cons x xs)
  have "acts_on K (\<lambda>d. fold f xs (f x d))" using acts_on_comp[OF assms[of x] Cons] .
  then show ?case by (simp add: comp_def)
qed


lemma acts_on_pageInit: "acts_on ''pageInitData'' (pageInit_step p)"
  by (rule acts_onI) (simp_all add: pageInit_step_def split: option.splits sum.splits)

lemma acts_on_basic_scan_key: "acts_on ''extensionData'' (basic_scan_key p key)"
  by (rule acts_onI) (simp_all add: basic_scan_key_def split: sum.splits)

lemma acts_on_basic_window: "acts_on ''extensionData'' (basic_window_step p)"
proof -
  have "acts_on ''extensionData''
          (\<lambda>d. fold (basic_scan_key p) ks (put d ''extensionData'' (VObject [])))" for ks
    by (rule acts_on_comp[OF acts_on_put acts_on_fold[OF acts_on_basic_scan_key]])
  then show ?thesis
    using acts_on_id[of "''extensionData''"]
    by (cases "filter basic_key_filter (windowKeys p) = []")
       (simp_all add: basic_window_step_def[abs_def] Let_def)
qed

lemma acts_on_basic_title: "acts_on ''additionalData'' (basic_title_step p)"
  by (rule acts_onI) (simp_all add: basic_title_step_def)

lemma acts_on_basic_moves: "acts_on ''additionalData'' (basic_moves_put xs)"
  by (rule acts_onI) (simp_all add: basic_moves_put_def)

lemma acts_on_basic_analysis: "acts_on ''additionalData'' (basic_analysis_put xs)"
  by (rule acts_onI) (simp_all add: basic_analysis_put_def)

lemma acts_on_basic_custom: "acts_on ''additionalData'' (basic_custom_put xs)"
  by (rule acts_onI) (simp_all add: basic_custom_put_def)

lemma acts_on_adv_scan_key: "acts_on ''extensionData'' (adv_scan_key p key)"
  by (rule acts_onI) (simp_all add: adv_scan_key_def split: sum.splits)

lemma acts_on_adv_window: "acts_on ''extensionData'' (adv_window_step p)"
  unfolding adv_window_step_def[abs_def] Let_def by (rule acts_on_fold[OF acts_on_adv_scan_key])

lemma acts_on_adv_storage_key: "acts_on ''localStorage'' (adv_storage_key p key)"
  by (rule acts_onI) (simp_all add: adv_storage_key_def split: sum.splits)

lemma acts_on_adv_storage: "acts_on ''localStorage'' (adv_storage_step p)"
proof (cases "localStorageKeys p")
  case (Inl e)
  then show ?thesis using acts_on_id[of "''localStorage''"]
    by (simp add: adv_storage_step_def[abs_def])
next
  case (Inr ks)
  then show ?thesis
    using acts_on_fold[of "''localStorage''" "adv_storage_key p" ks, OF acts_on_adv_storage_key]
    by (simp add: adv_storage_step_def[abs_def])
qed

lemma acts_on_adv_title: "acts_on ''dom'' (adv_title_step p)"
  by (rule acts_onI) (simp_all add: adv_title_step_def)

lemma acts_on_adv_moves: "acts_on ''dom'' (adv_moves_put xs)"
  by (rule acts_onI) (simp_all add: adv_moves_put_def)

lemma acts_on_adv_players: "acts_on ''dom'' (adv_players_put xs)"
  by (rule acts_onI) (simp_all add: adv_players_put_def)

lemma acts_on_adv_evaluations: "acts_on ''dom'' (adv_evaluations_put xs)"
  by (rule acts_onI) (simp_all add: adv_evaluations_put_def)

lemma acts_on_adv_selector: "acts_on ''dom'' (adv_selector_step p sel)"
  by (rule acts_onI) (simp_all add: adv_selector_step_def split: sum.splits)

lemma acts_on_adv_selectors: "acts_on ''dom'' (adv_selectors_step p)"
  unfolding adv_selectors_step_def[abs_def] by (rule acts_on_fold[OF acts_on_adv_selector])

lemma acts_on_adv_rmoves: "acts_on ''computedData'' (adv_rmoves_put xs)"
  by (rule acts_onI) (simp_all add: adv_rmoves_put_def)

lemma acts_on_adv_scripts: "acts_on ''computedData'' (adv_scripts_put p xs)"
  by (rule acts_onI) (simp_all add: adv_scripts_put_def Let_def)


lemma basic_initial_object [simp]: "is_object basic_initial_data"
  by (simp add: basic_initial_data_def)

lemma adv_initial_object [simp]: "is_object adv_initial_data"
  by (simp add: adv_initial_data_def)

lemma basic_extract_seq:
  "basic_extract p =
     bind (querySelectorAll p ''.moves move'') (\<lambda>moves.
     bind (querySelectorAll p ''[data-analysis]'') (\<lambda>analysis.
     bind (querySelectorAll p basic_custom_selector) (\<lambda>custom.
     Inr (basic_data p moves analysis custom))))"
  by (simp add: basic_extract_def Let_def bind_def basic_moves_step_def basic_analysis_step_def
      basic_custom_step_def basic_data_def split: sum.splits)

lemma adv_extract_seq:
  "adv_extract p =
     bind (querySelectorAll p ''.moves move, move'') (\<lambda>moves.
     bind (querySelectorAll p ''.ruser, .player'') (\<lambda>players.
     bind (querySelectorAll p ''[data-eval], .eval, .evaluation'') (\<lambda>evals.
     bind (querySelectorAll p ''.rmoves move'') (\<lambda>rmoves.
     bind (querySelectorAll p ''script:not([src])'') (\<lambda>scripts.
     Inr (adv_data p moves players evals rmoves scripts))))))"
  by (simp add: adv_extract_def Let_def bind_def adv_moves_step_def adv_players_step_def
      adv_evaluations_step_def adv_rmoves_step_def adv_scripts_step_def adv_data_def
      split: sum.splits)

lemma agree_off_refl: "is_object x \<Longrightarrow> agree_off K x x"
  by (simp add: agree_off_def)

lemma agree_off_other:
  assumes "acts_on K' f" "K' \<noteq> K" "agree_off K x x'"
  shows "agree_off K (f x) (f x')"
  unfolding agree_off_def
proof (intro conjI allI impI)
  from assms(3) have o: "is_object x" "is_object x'" by (simp_all add: agree_off_def)
  show "is_object (f x)" "is_object (f x')" using o assms(1) by (simp_all add: acts_on_object)
  fix k assume k: "k \<noteq> K"
  show "get (f x') k = get (f x) k"
  proof (cases "k = K'")
    case True
    have "get x' K' = get x K'" using assms(2,3) by (simp add: agree_off_def)
    from acts_on_local[OF assms(1) o this] True show ?thesis by simp
  next
    case False
    then have "get (f x') k = get x' k" "get (f x) k = get x k"
      using acts_on_frame[OF assms(1)] o by simp_all
    then show ?thesis using assms(3) k by (simp add: agree_off_def)
  qed
qed

lemma agree_off_same:
  assumes "acts_on K f" "acts_on K g" "agree_off K x x'"
  shows "agree_off K (f x) (g x')"
  using assms acts_on_frame[OF assms(1)] acts_on_frame[OF assms(2)]
  by (simp add: agree_off_def acts_on_object)

lemma agree_offD: "agree_off K x x' \<Longrightarrow> k \<noteq> K \<Longrightarrow> get x' k = get x k"
  by (simp add: agree_off_def)

lemmas basic_acts = acts_on_pageInit acts_on_basic_window acts_on_basic_title acts_on_basic_moves
  acts_on_basic_analysis acts_on_basic_custom

lemmas adv_acts = acts_on_pageInit acts_on_adv_window acts_on_adv_storage acts_on_adv_title
  acts_on_adv_moves acts_on_adv_players acts_on_adv_evaluations acts_on_adv_selectors
  acts_on_adv_rmoves acts_on_adv_scripts


text \<open>What each step reads of the page.\<close>

lemma pageInit_step_cong:
  "getElementById p' = getElementById p \<Longrightarrow> JSON_parse p' = JSON_parse p \<Longrightarrow>
   pageInit_step p' = pageInit_step p"
  by (intro ext) (simp add: pageInit_step_def split: option.splits sum.splits)

lemma basic_window_step_cong:
  assumes "windowKeys p' = windowKeys p" "windowGet p' = windowGet p"
  shows "basic_window_step p' = basic_window_step p"
proof -
  have "basic_scan_key p' = basic_scan_key p"
    by (intro ext) (simp add: basic_scan_key_def assms split: sum.splits)
  then show ?thesis
    by (intro ext) (simp add: basic_window_step_def Let_def assms)
qed

lemma basic_title_step_cong:
  "title p' = title p \<Longrightarrow> href p' = href p \<Longrightarrow> basic_title_step p' = basic_title_step p"
  by (intro ext) (simp add: basic_title_step_def)

lemma adv_window_step_cong:
  assumes "windowKeys p' = windowKeys p" "windowGet p' = windowGet p"
    and "JSON_parse p' = JSON_parse p" "JSON_stringify p' = JSON_stringify p"
  shows "adv_window_step p' = adv_window_step p"
proof -
  have "adv_scan_key p' = adv_scan_key p"
    by (intro ext) (simp add: adv_scan_key_def json_clone_def assms split: sum.splits)
  then show ?thesis
    by (intro ext) (simp add: adv_window_step_def Let_def assms)
qed

lemma adv_storage_step_cong:
  assumes "localStorageKeys p' = localStorageKeys p" "localStorageGetItem p' = localStorageGetItem p"
  shows "adv_storage_step p' = adv_storage_step p"
proof -
  have "adv_storage_key p' = adv_storage_key p"
    by (intro ext) (simp add: adv_storage_key_def assms split: sum.splits)
  then show ?thesis
    by (intro ext) (simp add: adv_storage_step_def assms split: sum.splits)
qed

lemma adv_title_step_cong:
  "title p' = title p \<Longrightarrow> href p' = href p \<Longrightarrow> adv_title_step p' = adv_title_step p"
  by (intro ext) (simp add: adv_title_step_def)

lemma adv_selectors_step_cong:
  assumes "querySelectorAll p' = querySelectorAll p"
  shows "adv_selectors_step p' = adv_selectors_step p"
proof -
  have "adv_selector_step p' = adv_selector_step p"
    by (intro ext) (simp add: adv_selector_step_def assms split: sum.splits)
  then show ?thesis
    by (intro ext) (simp add: adv_selectors_step_def)
qed

lemma adv_scripts_put_cong:
  assumes "JSON_parse p' = JSON_parse p"
  shows "adv_scripts_put p' = adv_scripts_put p"
proof -
  have "adv_script_json p' = adv_script_json p"
    by (intro ext) (simp add: adv_script_json_def assms Let_def split: sum.splits)
  then show ?thesis
    by (intro ext) (simp add: adv_scripts_put_def)
qed


lemma basic_data_element:
  "agree_off ''pageInitData'' (basic_data p m a c) (basic_data (p\<lparr>getElementById := g\<rparr>) m a c)"
proof -
  let ?p = "p\<lparr>getElementById := g\<rparr>"
  have eq: "basic_window_step ?p = basic_window_step p" "basic_title_step ?p = basic_title_step p"
    by (rule pageInit_step_cong basic_window_step_cong basic_title_step_cong
        adv_window_step_cong adv_storage_step_cong adv_title_step_cong adv_selectors_step_cong
        adv_scripts_put_cong; simp)+
  have "agree_off ''pageInitData'' (pageInit_step p basic_initial_data) (pageInit_step ?p basic_initial_data)"
    by (rule agree_off_same[OF acts_on_pageInit acts_on_pageInit agree_off_refl]) simp
  then show ?thesis
    unfolding basic_data_def eq
    by (intro agree_off_other[OF acts_on_basic_custom] agree_off_other[OF acts_on_basic_analysis]
        agree_off_other[OF acts_on_basic_moves] agree_off_other[OF acts_on_basic_title]
        agree_off_other[OF acts_on_basic_window]) simp_all
qed

lemma basic_data_window:
  "agree_off ''extensionData'' (basic_data p m a c) (basic_data (p\<lparr>windowGet := w\<rparr>) m a c)"
proof -
  let ?p = "p\<lparr>windowGet := w\<rparr>"
  have eq: "pageInit_step ?p = pageInit_step p" "basic_title_step ?p = basic_title_step p"
    by (rule pageInit_step_cong basic_window_step_cong basic_title_step_cong
        adv_window_step_cong adv_storage_step_cong adv_title_step_cong adv_selectors_step_cong
        adv_scripts_put_cong; simp)+
  have "agree_off ''extensionData'' (basic_window_step p (pageInit_step p basic_initial_data))
          (basic_window_step ?p (pageInit_step p basic_initial_data))"
    by (rule agree_off_same[OF acts_on_basic_window acts_on_basic_window agree_off_refl])
       (simp add: acts_on_object[OF acts_on_pageInit])
  then show ?thesis
    unfolding basic_data_def eq
    by (intro agree_off_other[OF acts_on_basic_custom] agree_off_other[OF acts_on_basic_analysis]
        agree_off_other[OF acts_on_basic_moves] agree_off_other[OF acts_on_basic_title]) simp_all
qed

lemma adv_data_element:
  "agree_off ''pageInitData'' (adv_data p m pl ev rm sc)
     (adv_data (p\<lparr>getElementById := g\<rparr>) m pl ev rm sc)"
proof -
  let ?p = "p\<lparr>getElementById := g\<rparr>"
  have eq: "adv_window_step ?p = adv_window_step p" "adv_storage_step ?p = adv_storage_step p"
    "adv_title_step ?p = adv_title_step p" "adv_selectors_step ?p = adv_selectors_step p"
    "adv_scripts_put ?p = adv_scripts_put p"
    by (rule pageInit_step_cong basic_window_step_cong basic_title_step_cong
        adv_window_step_cong adv_storage_step_cong adv_title_step_cong adv_selectors_step_cong
        adv_scripts_put_cong; simp)+
  have "agree_off ''pageInitData'' (pageInit_step p adv_initial_data) (pageInit_step ?p adv_initial_data)"
    by (rule agree_off_same[OF acts_on_pageInit acts_on_pageInit agree_off_refl]) simp
  then show ?thesis
    unfolding adv_data_def eq
    by (intro agree_off_other[OF acts_on_adv_scripts] agree_off_other[OF acts_on_adv_rmoves]
        agree_off_other[OF acts_on_adv_selectors] agree_off_other[OF acts_on_adv_evaluations]
        agree_off_other[OF acts_on_adv_players] agree_off_other[OF acts_on_adv_moves]
        agree_off_other[OF acts_on_adv_title] agree_off_other[OF acts_on_adv_storage]
        agree_off_other[OF acts_on_adv_window]) simp_all
qed

lemma adv_data_window:
  "agree_off ''extensionData'' (adv_data p m pl ev rm sc)
     (adv_data (p\<lparr>windowGet := w\<rparr>) m pl ev rm sc)"
proof -
  let ?p = "p\<lparr>windowGet := w\<rparr>"
  have eq: "pageInit_step ?p = pageInit_step p" "adv_storage_step ?p = adv_storage_step p"
    "adv_title_step ?p = adv_title_step p" "adv_selectors_step ?p = adv_selectors_step p"
    "adv_scripts_put ?p = adv_scripts_put p"
    by (rule pageInit_step_cong basic_window_step_cong basic_title_step_cong
        adv_window_step_cong adv_storage_step_cong adv_title_step_cong adv_selectors_step_cong
        adv_scripts_put_cong; simp)+
  have "agree_off ''extensionData'' (adv_window_step p (pageInit_step p adv_initial_data))
          (adv_window_step ?p (pageInit_step p adv_initial_data))"
    by (rule agree_off_same[OF acts_on_adv_window acts_on_adv_window agree_off_refl])
       (simp add: acts_on_object[OF acts_on_pageInit])
  then show ?thesis
    unfolding adv_data_def eq
    by (intro agree_off_other[OF acts_on_adv_scripts] agree_off_other[OF acts_on_adv_rmoves]
        agree_off_other[OF acts_on_adv_selectors] agree_off_other[OF acts_on_adv_evaluations]
        agree_off_other[OF acts_on_adv_players] agree_off_other[OF acts_on_adv_moves]
        agree_off_other[OF acts_on_adv_title] agree_off_other[OF acts_on_adv_storage]) simp_all
qed

lemma adv_data_storage:
  "agree_off ''localStorage'' (adv_data p m pl ev rm sc)
     (adv_data (p\<lparr>localStorageKeys := lk, localStorageGetItem := lg\<rparr>) m pl ev rm sc)"
proof -
  let ?p = "p\<lparr>localStorageKeys := lk, localStorageGetItem := lg\<rparr>"
  have eq: "pageInit_step ?p = pageInit_step p" "adv_window_step ?p = adv_window_step p"
    "adv_title_step ?p = adv_title_step p" "adv_selectors_step ?p = adv_selectors_step p"
    "adv_scripts_put ?p = adv_scripts_put p"
    by (rule pageInit_step_cong basic_window_step_cong basic_title_step_cong
        adv_window_step_cong adv_storage_step_cong adv_title_step_cong adv_selectors_step_cong
        adv_scripts_put_cong; simp)+
  have "agree_off ''localStorage''
          (adv_storage_step p (adv_window_step p (pageInit_step p adv_initial_data)))
          (adv_storage_step ?p (adv_window_step p (pageInit_step p adv_initial_data)))"
    by (rule agree_off_same[OF acts_on_adv_storage acts_on_adv_storage agree_off_refl])
       (simp add: acts_on_object[OF acts_on_pageInit] acts_on_object[OF acts_on_adv_window])
  then show ?thesis
    unfolding adv_data_def eq
    by (intro agree_off_other[OF acts_on_adv_scripts] agree_off_other[OF acts_on_adv_rmoves]
        agree_off_other[OF acts_on_adv_selectors] agree_off_other[OF acts_on_adv_evaluations]
        agree_off_other[OF acts_on_adv_players] agree_off_other[OF acts_on_adv_moves]
        agree_off_other[OF acts_on_adv_title]) simp_all
qed

lemma basic_vary_element:
  "same_fragments [''extensionData'', ''additionalData''] (basic_extract p)
     (basic_extract (p\<lparr>getElementById := g\<rparr>))"
  using basic_data_element[of p _ _ _ g]
  by (auto simp: basic_extract_seq bind_def same_fragments_def agree_off_def split: sum.splits)

lemma basic_vary_window:
  "same_fragments [''pageInitData'', ''additionalData''] (basic_extract p)
     (basic_extract (p\<lparr>windowGet := w\<rparr>))"
  using basic_data_window[of p _ _ _ w]
  by (auto simp: basic_extract_seq bind_def same_fragments_def agree_off_def split: sum.splits)



lemma adv_extract_rel:
  assumes q: "\<And>s. s \<in> set adv_unguarded \<Longrightarrow> querySelectorAll p' s = querySelectorAll p s"
    and R: "\<And>m pl ev rm sc. R (adv_data p m pl ev rm sc) (adv_data p' m pl ev rm sc)"
  shows "case adv_extract p of
           Inl e \<Rightarrow> adv_extract p' = Inl e
         | Inr d \<Rightarrow> (\<exists>d'. adv_extract p' = Inr d' \<and> R d d')"
proof -
  have qs: "querySelectorAll p' ''.moves move, move'' = querySelectorAll p ''.moves move, move''"
    "querySelectorAll p' ''.ruser, .player'' = querySelectorAll p ''.ruser, .player''"
    "querySelectorAll p' ''[data-eval], .eval, .evaluation'' =
       querySelectorAll p ''[data-eval], .eval, .evaluation''"
    "querySelectorAll p' ''.rmoves move'' = querySelectorAll p ''.rmoves move''"
    "querySelectorAll p' ''script:not([src])'' = querySelectorAll p ''script:not([src])''"
    by (rule q, simp add: adv_unguarded_def)+
  show ?thesis
    unfolding adv_extract_seq[of p'] qs
    unfolding adv_extract_seq[of p]
    using R by (simp add: bind_def split: sum.splits)
qed

lemma adv_vary_element:
  "same_fragments [''extensionData'', ''dom'', ''localStorage'', ''cookies'', ''computedData'']
     (adv_extract p) (adv_extract (p\<lparr>getElementById := g\<rparr>))"
  using adv_extract_rel[of "p\<lparr>getElementById := g\<rparr>" p "agree_off ''pageInitData''",
      OF _ adv_data_element]
  by (auto simp: same_fragments_def agree_off_def split: sum.splits)

lemma adv_vary_window:
  "same_fragments [''pageInitData'', ''dom'', ''localStorage'', ''cookies'', ''computedData'']
     (adv_extract p) (adv_extract (p\<lparr>windowGet := w\<rparr>))"
  using adv_extract_rel[of "p\<lparr>windowGet := w\<rparr>" p "agree_off ''extensionData''",
      OF _ adv_data_window]
  by (auto simp: same_fragments_def agree_off_def split: sum.splits)

lemma adv_vary_storage:
  "same_fragments [''pageInitData'', ''extensionData'', ''dom'', ''cookies'', ''computedData'']
     (adv_extract p) (adv_extract (p\<lparr>localStorageKeys := lk, localStorageGetItem := lg\<rparr>))"
  using adv_extract_rel[of "p\<lparr>localStorageKeys := lk, localStorageGetItem := lg\<rparr>" p
      "agree_off ''localStorage''", OF _ adv_data_storage]
  by (auto simp: same_fragments_def agree_off_def split: sum.splits)

lemma basic_extract_returns:
  "returns (basic_extract p) \<longleftrightarrow> (\<forall>s \<in> set basic_unguarded. query_ok p s)"
  by (auto simp: basic_extract_seq bind_def returns_def basic_unguarded_def query_ok_def
      split: sum.splits)

lemma adv_extract_returns:
  "returns (adv_extract p) \<longleftrightarrow> (\<forall>s \<in> set adv_unguarded. query_ok p s)"
  by (auto simp: adv_extract_seq bind_def returns_def adv_unguarded_def query_ok_def
      split: sum.splits)

lemma extract_data:
  "basic_extract p = Inr d \<Longrightarrow> \<exists>m a c. querySelectorAll p basic_custom_selector = Inr c \<and> d = basic_data p m a c"
  "adv_extract p = Inr d \<Longrightarrow> \<exists>m pl ev rm sc. d = adv_data p m pl ev rm sc"
  by (simp_all add: basic_extract_seq adv_extract_seq bind_def split: sum.splits) blast+

lemmas basic_frames = basic_acts[THEN acts_on_frame]
lemmas basic_objects = basic_acts[THEN acts_on_object]
lemmas adv_frames = adv_acts[THEN acts_on_frame]
lemmas adv_objects = adv_acts[THEN acts_on_object]

lemma basic_data_object: "is_object (basic_data p m a c)"
  by (simp add: basic_data_def basic_objects)

lemma adv_data_object: "is_object (adv_data p m pl ev rm sc)"
  by (simp add: adv_data_def adv_objects)

lemma pageInit_null:
  assumes "payload_absent_or_invalid p"
  shows "pageInit_step p d = d"
  using assms by (simp add: payload_absent_or_invalid_def pageInit_step_def split: option.splits sum.splits)

lemma basic_data_pageInit:
  "get (basic_data p m a c) ''pageInitData'' = get (pageInit_step p basic_initial_data) ''pageInitData''"
  by (simp add: basic_data_def basic_frames basic_objects)

lemma adv_data_pageInit:
  "get (adv_data p m pl ev rm sc) ''pageInitData'' = get (pageInit_step p adv_initial_data) ''pageInitData''"
  by (simp add: adv_data_def adv_frames adv_objects)

lemma payload_null:
  assumes "payload_absent_or_invalid p"
  shows "basic_extract p = Inr d \<Longrightarrow> get d ''pageInitData'' = VNull"
    and "adv_extract p = Inr d \<Longrightarrow> get d ''pageInitData'' = VNull"
  using extract_data[of p d] assms
  by (auto simp: basic_data_pageInit adv_data_pageInit pageInit_null basic_initial_data_def adv_initial_data_def)

lemma get_put_cases: "get (put x k v) k' = v \<or> get (put x k v) k' = get x k'"
  by (cases x) (simp_all add: map_of_set_prop)

lemma get_put_other: "k' \<noteq> k \<Longrightarrow> get (put x k v) k' = get x k'"
  by (cases x) (simp_all add: map_of_set_prop)

lemma basic_custom_short: "short_text ''textContent'' (basic_custom_element el)"
  by (simp add: short_text_def basic_custom_element_def substring0_def)

lemma adv_custom_short: "short_text ''text'' (adv_custom_element el)"
  by (simp add: short_text_def adv_custom_element_def substring0_def)

lemma basic_extensionElements:
  "get (get (basic_data p m a c) ''additionalData'') ''extensionElements'' =
     (if c = [] then VUndefined else VArray (map basic_custom_element c))"
proof -
  let ?x = "basic_window_step p (pageInit_step p basic_initial_data)"
  have x: "is_object ?x" "get ?x ''additionalData'' = VObject []"
    by (simp_all add: basic_objects basic_frames basic_initial_data_def)
  then show ?thesis
    by (simp add: basic_data_def basic_custom_put_def basic_analysis_put_def basic_moves_put_def
        basic_title_step_def)
qed

lemma selector_step_short:
  assumes "is_object x" "\<forall>e \<in> set (items (get (get x ''dom'') k)). short_text ''text'' e"
  shows "\<forall>e \<in> set (items (get (get (adv_selector_step p s x) ''dom'') k)). short_text ''text'' e"
proof (cases "\<exists>els. querySelectorAll p s = Inr els \<and> els \<noteq> []")
  case True
  then obtain els where els: "querySelectorAll p s = Inr els" "els \<noteq> []" by blast
  let ?v = "VArray (map adv_custom_element els)"
  have "get (put (get x ''dom'') (selector_key s) ?v) k = ?v \<or>
        get (put (get x ''dom'') (selector_key s) ?v) k = get (get x ''dom'') k"
    by (rule get_put_cases)
  then show ?thesis using assms els
    by (auto simp: adv_selector_step_def adv_custom_short)
next
  case False
  then have "adv_selector_step p s x = x"
    by (auto simp: adv_selector_step_def split: sum.splits)
  then show ?thesis using assms by simp
qed

lemma selectors_fold_short:
  assumes "is_object x" "\<forall>e \<in> set (items (get (get x ''dom'') k)). short_text ''text'' e"
  shows "\<forall>e \<in> set (items (get (get (fold (adv_selector_step p) sels x) ''dom'') k)). short_text ''text'' e"
  using assms
proof (induction sels arbitrary: x)
  case Nil then show ?case by simp
next
  case (Cons s sels)
  have "is_object (adv_selector_step p s x)"
    using Cons.prems(1) by (simp add: acts_on_object[OF acts_on_adv_selector])
  from Cons.IH[OF this selector_step_short[OF Cons.prems]] show ?case by simp
qed

lemma selector_keys_fresh:
  "sel \<in> set extensionSelectors \<Longrightarrow>
   selector_key sel \<notin> {''title'', ''url'', ''moves'', ''players'', ''evaluations''}"
  by (auto simp: extensionSelectors_def selector_key_def)

lemma adv_selector_entries_short:
  assumes "sel \<in> set extensionSelectors"
  shows "\<forall>e \<in> set (items (get (get (adv_data p m pl ev rm sc) ''dom'') (selector_key sel))). short_text ''text'' e"
proof -
  let ?x = "adv_storage_step p (adv_window_step p (pageInit_step p adv_initial_data))"
  let ?y = "adv_evaluations_put ev (adv_players_put pl (adv_moves_put m (adv_title_step p ?x)))"
  have x: "is_object ?x" "get ?x ''dom'' = VObject []"
    by (simp_all add: adv_objects adv_frames adv_initial_data_def)
  have y: "is_object ?y" by (simp add: adv_objects)
  have "get (get ?y ''dom'') (selector_key sel) = VUndefined"
    using x selector_keys_fresh[OF assms]
    by (simp add: adv_evaluations_put_def adv_players_put_def adv_moves_put_def adv_title_step_def)
  then have "\<forall>e \<in> set (items (get (get ?y ''dom'') (selector_key sel))). short_text ''text'' e"
    by simp
  from selectors_fold_short[OF y this, of p extensionSelectors]
  have "\<forall>e \<in> set (items (get (get (adv_selectors_step p ?y) ''dom'') (selector_key sel))).
          short_text ''text'' e"
    by (simp add: adv_selectors_step_def)
  then show ?thesis
    by (simp add: adv_data_def adv_frames adv_objects)
qed

section \<open>The scan of globals, key by key\<close>









lemma adv_data_extension:
  "get (adv_data p m pl ev rm sc) ''extensionData'' = get (adv_window_step p adv_initial_data) ''extensionData''"
proof -
  have "get (adv_window_step p (pageInit_step p adv_initial_data)) ''extensionData'' =
        get (adv_window_step p adv_initial_data) ''extensionData''"
    by (rule acts_on_local[OF acts_on_adv_window]) (simp_all add: adv_objects adv_frames)
  then show ?thesis by (simp add: adv_data_def adv_frames adv_objects)
qed

section \<open>A failing extension selector\<close>

lemma selector_step_agree:
  assumes "agree_in ''dom'' (selector_key sel) x x'"
    and "s = sel \<or> querySelectorAll p' s = querySelectorAll p s"
  shows "agree_in ''dom'' (selector_key sel) (adv_selector_step p s x) (adv_selector_step p' s x')"
  using assms
  by (auto simp: agree_in_def agree_off_def adv_selector_step_def split: sum.splits)

lemma selectors_fold_agree:
  assumes "agree_in ''dom'' (selector_key sel) x x'"
    and "\<forall>s. s \<noteq> sel \<longrightarrow> querySelectorAll p' s = querySelectorAll p s"
  shows "agree_in ''dom'' (selector_key sel) (fold (adv_selector_step p) sels x)
           (fold (adv_selector_step p') sels x')"
  using assms(1)
proof (induction sels arbitrary: x x')
  case Nil then show ?case by simp
next
  case (Cons s sels)
  have "s = sel \<or> querySelectorAll p' s = querySelectorAll p s" using assms(2) by blast
  from Cons.IH[OF selector_step_agree[OF Cons.prems this]] show ?case by simp
qed

lemma agree_in_other:
  assumes "acts_on K' f" "K' \<noteq> K" "agree_in K K2 x x'"
  shows "agree_in K K2 (f x) (f x')"
proof -
  from assms(3) have a: "agree_off K x x'" and o: "is_object x" "is_object x'"
    by (simp_all add: agree_in_def agree_off_def)
  have "get (f x) K = get x K" "get (f x') K = get x' K"
    using acts_on_frame[OF assms(1)] o assms(2) by simp_all
  with agree_off_other[OF assms(1,2) a] assms(3) show ?thesis
    by (simp add: agree_in_def)
qed

lemma unguarded_not_extension: "sel \<in> set extensionSelectors \<Longrightarrow> sel \<notin> set adv_unguarded"
  by (auto simp: extensionSelectors_def adv_unguarded_def)

lemma adv_data_selector:
  fixes p sel r
  defines "p' \<equiv> p\<lparr>querySelectorAll := (querySelectorAll p)(sel := r)\<rparr>"
  shows "agree_in ''dom'' (selector_key sel) (adv_data p m pl ev rm sc) (adv_data p' m pl ev rm sc)"
proof -
  let ?y = "adv_evaluations_put ev (adv_players_put pl (adv_moves_put m (adv_title_step p
              (adv_storage_step p (adv_window_step p (pageInit_step p adv_initial_data))))))"
  have eq: "pageInit_step p' = pageInit_step p" "adv_window_step p' = adv_window_step p"
    "adv_storage_step p' = adv_storage_step p" "adv_title_step p' = adv_title_step p"
    "adv_scripts_put p' = adv_scripts_put p"
    unfolding p'_def
    by (rule pageInit_step_cong adv_window_step_cong adv_storage_step_cong adv_title_step_cong
        adv_scripts_put_cong; simp)+
  have y: "is_object ?y" by (simp add: adv_objects)
  have "get (adv_storage_step p (adv_window_step p (pageInit_step p adv_initial_data))) ''dom'' = VObject []"
    by (simp add: adv_objects adv_frames adv_initial_data_def)
  then have "is_object (get ?y ''dom'')"
    by (simp add: adv_evaluations_put_def adv_players_put_def adv_moves_put_def adv_title_step_def
        adv_objects)
  with y have "agree_in ''dom'' (selector_key sel) ?y ?y"
    by (simp add: agree_in_def agree_off_def)
  moreover have "\<forall>s. s \<noteq> sel \<longrightarrow> querySelectorAll p' s = querySelectorAll p s"
    by (simp add: p'_def)
  ultimately have "agree_in ''dom'' (selector_key sel) (adv_selectors_step p ?y) (adv_selectors_step p' ?y)"
    unfolding adv_selectors_step_def by (rule selectors_fold_agree)
  then show ?thesis
    unfolding adv_data_def eq
    by (intro agree_in_other[OF acts_on_adv_scripts] agree_in_other[OF acts_on_adv_rmoves]) simp_all
qed

lemma adv_vary_selector:
  assumes "sel \<in> set extensionSelectors"
  shows "same_fragments [''pageInitData'', ''extensionData'', ''localStorage'', ''cookies'', ''computedData'']
           (adv_extract p) (adv_extract (p\<lparr>querySelectorAll := (querySelectorAll p)(sel := r)\<rparr>))"
    and "adv_extract p = Inr d \<Longrightarrow>
         adv_extract (p\<lparr>querySelectorAll := (querySelectorAll p)(sel := r)\<rparr>) = Inr d' \<Longrightarrow>
         k \<noteq> selector_key sel \<Longrightarrow> get (get d' ''dom'') k = get (get d ''dom'') k"
proof -
  let ?p = "p\<lparr>querySelectorAll := (querySelectorAll p)(sel := r)\<rparr>"
  have q: "\<And>s. s \<in> set adv_unguarded \<Longrightarrow> querySelectorAll ?p s = querySelectorAll p s"
    using unguarded_not_extension[OF assms] by auto
  note rel = adv_extract_rel[of ?p p "agree_in ''dom'' (selector_key sel)", OF q adv_data_selector]
  show "same_fragments [''pageInitData'', ''extensionData'', ''localStorage'', ''cookies'', ''computedData'']
           (adv_extract p) (adv_extract ?p)"
    using rel by (auto simp: same_fragments_def agree_in_def agree_off_def split: sum.splits)
  show "adv_extract p = Inr d \<Longrightarrow> adv_extract ?p = Inr d' \<Longrightarrow>
         k \<noteq> selector_key sel \<Longrightarrow> get (get d' ''dom'') k = get (get d ''dom'') k"
    using rel by (auto simp: agree_in_def split: sum.splits)
qed

section \<open>The examples, evaluated\<close>

lemma example_basic_extract: "basic_extract example_page = Inr example_basic_data"
  by (simp add: basic_extract_seq bind_def example_page_def example_basic_data_def
      example_moves_def basic_custom_selector_def)

lemma example_adv_extract: "adv_extract example_page = Inr example_adv_data"
  by (simp add: adv_extract_seq bind_def example_page_def example_adv_data_def
      example_moves_def basic_custom_selector_def)

lemma no_payload_basic_extract: "basic_extract no_payload_page = Inr no_payload_basic_data"
  by (simp add: basic_extract_seq bind_def example_page_def no_payload_page_def
      no_payload_basic_data_def example_moves_def basic_custom_selector_def)

lemma no_payload_adv_extract: "adv_extract no_payload_page = Inr no_payload_adv_data"
  by (simp add: adv_extract_seq bind_def example_page_def no_payload_page_def
      no_payload_adv_data_def example_moves_def basic_custom_selector_def)

lemma broken_basic_extract: "basic_extract broken_page = Inl query_error"
  by (simp add: basic_extract_seq bind_def broken_page_def)

lemma broken_adv_extract: "adv_extract broken_page = Inl query_error"
  by (simp add: adv_extract_seq bind_def broken_page_def)

lemma parse5000: "parseInt_str ''5000'' = Finite 5000"
  by (simp add: parseInt_str_def trimStart_def is_space_def Let_def is_radix_digit_def
      digit_val_def radix_value_def nearest_double_def)

lemmas example_request_defs =
  game_request_def query_param_def body_param_def js_or_def waitTime_of_def waitTime_raw_def
  game_url_def template_def

lemma example_basic_run:
  "fetchLichessGame example_env game_request =
     (Some (basic_ok example_env (Some (JStr ''abcd1234''))
              (put example_basic_data ''htmlLength'' (VNum (Finite 13)))),
      [Launch, NewPage, SetUserAgent, Goto ''https://lichess.org/abcd1234'',
       WaitForTimeout (VNum (Finite 3000)), EvaluateExtraction, Content, Close])"
  by (simp add: fetchLichessGame_def Let_def basic_try_def run_defs send_ok_def example_env_def
      example_basic_extract example_request_defs)

lemma example_adv_run:
  "fetchLichessGameAdvanced example_env game_request =
     (Some (basic_ok example_env (Some (JStr ''abcd1234'')) example_adv_data),
      [Launch, NewPage, SetRequestInterception, SetUserAgent, Goto ''https://lichess.org/abcd1234'',
       WaitForTimeout (VNum (Finite 5000)), EvaluateExtraction, Close])"
  by (simp add: fetchLichessGameAdvanced_def Let_def adv_try_def inject_def run_defs send_ok_def
      example_env_def example_adv_extract example_request_defs parse5000)

text \<open>When the \<open>close\<close> of the \<open>try\<close> block throws, \<open>browser\<close> is still set and the
  \<open>catch\<close> block calls \<open>close\<close> again: this path, no part of the claims below, calls it
  twice.\<close>

lemma close_fault_adv_run:
  "fetchLichessGameAdvanced close_fault_env game_request =
     (Some (adv_failed (Some (JStr ''abcd1234'')) close_error),
      [Launch, NewPage, SetRequestInterception, SetUserAgent, Goto ''https://lichess.org/abcd1234'',
       WaitForTimeout (VNum (Finite 5000)), EvaluateExtraction, Close, Close])"
  by (simp add: fetchLichessGameAdvanced_def Let_def adv_try_def inject_def run_defs send_ok_def
      close_fault_env_def example_env_def example_adv_extract example_request_defs parse5000
      catch_block_def)

lemma broken_adv_run:
  "fetchLichessGameAdvanced broken_env game_request =
     (Some (adv_failed (Some (JStr ''abcd1234'')) query_error),
      [Launch, NewPage, SetRequestInterception, SetUserAgent, Goto ''https://lichess.org/abcd1234'',
       WaitForTimeout (VNum (Finite 5000)), EvaluateExtraction, Close])"
  by (simp add: fetchLichessGameAdvanced_def Let_def adv_try_def inject_def run_defs send_ok_def
      broken_env_def example_env_def broken_adv_extract example_request_defs parse5000
      catch_block_def)

text \<open>When \<open>res.json\<close> throws on the extracted data, the renderer is already closed and
  \<open>browser\<close> reset: the \<open>catch\<close> block answers 500 without a second \<open>close\<close>.\<close>

lemma bigint_adv_extract: "adv_extract bigint_page = Inr bigint_adv_data"
  by (simp add: adv_extract_seq bind_def example_page_def bigint_page_def bigint_adv_data_def
      example_moves_def basic_custom_selector_def)

lemma bigint_adv_run:
  "fetchLichessGameAdvanced bigint_env game_request =
     (Some (adv_failed (Some (JStr ''abcd1234'')) serialize_error),
      [Launch, NewPage, SetRequestInterception, SetUserAgent, Goto ''https://lichess.org/abcd1234'',
       WaitForTimeout (VNum (Finite 5000)), EvaluateExtraction, Close])"
  by (simp add: fetchLichessGameAdvanced_def Let_def adv_try_def inject_def run_defs send_ok_def
      bigint_env_def example_env_def bigint_adv_extract example_request_defs parse5000
      catch_block_def)

text \<open>A \<open>gameId\<close> that has no string form: the template literal of the URL throws inside
  the \<open>try\<close> block, after the launch, and the renderer is closed by the \<open>catch\<close> block.\<close>

lemma opaque_id_run:
  "fetchLichessGame example_env opaque_id_request =
     (Some (basic_failed (Some opaque_object) conversion_type_error),
      [Launch, NewPage, SetUserAgent, Close])"
  by (simp add: fetchLichessGame_def Let_def basic_try_def run_defs example_env_def
      example_engine_def opaque_id_request_def opaque_object_def query_param_def body_param_def
      js_or_def game_url_def template_def catch_block_def)


lemma example_badge_adv:
  "get (get example_adv_data ''dom'') ''data-extension'' =
     VArray [adv_custom_element example_badge]"
  by (simp add: example_adv_data_def adv_data_def adv_frames adv_objects)
     (simp add: adv_selectors_step_def extensionSelectors_def adv_selector_step_def
        selector_key_def example_page_def basic_custom_selector_def adv_evaluations_put_def
        adv_players_put_def adv_moves_put_def adv_title_step_def adv_objects adv_frames
        adv_initial_data_def example_moves_def)

lemma timeout_adv_run:
  "fetchLichessGameAdvanced timeout_env game_request =
     (Some (adv_failed (Some (JStr ''abcd1234'')) navigation_timeout),
      [Launch, NewPage, SetRequestInterception, SetUserAgent,
       Goto ''https://lichess.org/abcd1234'', Close])"
  by (simp add: fetchLichessGameAdvanced_def Let_def adv_try_def run_defs timeout_env_def
      example_env_def example_request_defs parse5000 catch_block_def)

text \<open>Line 250 throws on a \<open>waitTime\<close> that has no string form.\<close>

lemma opaque_wait_run:
  "waitTime_of (js example_env) opaque_wait_request = Inl conversion_type_error \<and>
   fetchLichessGameAdvanced example_env opaque_wait_request = (None, [])"
  by (simp add: fetchLichessGameAdvanced_def Let_def example_env_def example_engine_def
      opaque_wait_request_def opaque_object_def query_param_def body_param_def js_or_def
      waitTime_of_def waitTime_raw_def template_def)



lemma example_lichess:
  "get (get example_adv_data ''extensionData'') ''lichess'' = marker_object"
  by (simp add: example_adv_data_def adv_data_extension)
     (simp add: adv_window_step_def adv_key_filter_def adv_scan_key_def example_page_def
        toLowerCase_def lower_char_def startsWith_def Let_def adv_initial_data_def put_in_def
        json_clone_def bind_def marker_object_def marker_text_def access_error_marker_def)


section \<open>Claims about the extraction\<close>

text \<open>
  C1, as amended. The claim says that a throwing query of any probe leaves every other
  fragment populated. The extraction guards only some operations. A fault in a guarded
  one does not leave the evaluation and changes no other fragment: whatever the payload
  script element is (\<open>getElementById\<close>), whatever reading a global gives or throws
  (\<open>windowGet\<close>), whatever \<open>localStorage\<close> gives or throws, the evaluation ends alike
  on every other fragment; and whatever one extension selector of the advanced variant
  gives or throws, every other fragment and every other key of \<open>dom\<close> is the same.
  No guarded fault ends the evaluation: it returns whenever the DOM queries made outside
  any \<open>try\<close> succeed.
\<close>

theorem guarded_faults_isolated:
  "((\<forall>s \<in> set basic_unguarded. query_ok p s) \<longrightarrow> returns (basic_extract p)) \<and>
   ((\<forall>s \<in> set adv_unguarded. query_ok p s) \<longrightarrow> returns (adv_extract p)) \<and>
   same_fragments [''extensionData'', ''additionalData'']
     (basic_extract p) (basic_extract (p\<lparr>getElementById := g\<rparr>)) \<and>
   same_fragments [''pageInitData'', ''additionalData'']
     (basic_extract p) (basic_extract (p\<lparr>windowGet := w\<rparr>)) \<and>
   same_fragments [''extensionData'', ''dom'', ''localStorage'', ''cookies'', ''computedData'']
     (adv_extract p) (adv_extract (p\<lparr>getElementById := g\<rparr>)) \<and>
   same_fragments [''pageInitData'', ''dom'', ''localStorage'', ''cookies'', ''computedData'']
     (adv_extract p) (adv_extract (p\<lparr>windowGet := w\<rparr>)) \<and>
   same_fragments [''pageInitData'', ''extensionData'', ''dom'', ''cookies'', ''computedData'']
     (adv_extract p)
     (adv_extract (p\<lparr>localStorageKeys := lk, localStorageGetItem := lg\<rparr>)) \<and>
   (sel \<in> set extensionSelectors \<longrightarrow>
      same_fragments
        [''pageInitData'', ''extensionData'', ''localStorage'', ''cookies'', ''computedData'']
        (adv_extract p) (adv_extract (p\<lparr>querySelectorAll := (querySelectorAll p)(sel := r)\<rparr>)) \<and>
      (\<forall>d d' k.
         adv_extract p = Inr d \<and>
         adv_extract (p\<lparr>querySelectorAll := (querySelectorAll p)(sel := r)\<rparr>) = Inr d' \<and>
         k \<noteq> selector_key sel \<longrightarrow>
         get (get d' ''dom'') k = get (get d ''dom'') k))"
  using basic_extract_returns [of p] adv_extract_returns [of p]
    basic_vary_element [where p = p and g = g] basic_vary_window [where p = p and w = w]
    adv_vary_element [where p = p and g = g] adv_vary_window [where p = p and w = w]
    adv_vary_storage [where p = p and lk = lk and lg = lg]
    adv_vary_selector [where sel = sel and p = p and r = r]
  by blast

theorem guarded_faults_isolated_witness:
  "returns (basic_extract example_page) \<and>
   same_fragments [''pageInitData'', ''additionalData'']
     (basic_extract example_page) (basic_extract no_globals_page) \<and>
   returns (adv_extract example_page) \<and>
   same_fragments [''pageInitData'', ''dom'', ''localStorage'', ''cookies'', ''computedData'']
     (adv_extract example_page) (adv_extract no_globals_page) \<and>
   ''[data-extension]'' \<in> set extensionSelectors \<and>
   same_fragments
     [''pageInitData'', ''extensionData'', ''localStorage'', ''cookies'', ''computedData'']
     (adv_extract example_page)
     (adv_extract (example_page\<lparr>querySelectorAll :=
        (querySelectorAll example_page)(''[data-extension]'' := Inl query_error)\<rparr>))"
proof -
  have a: "\<forall>s \<in> set adv_unguarded. query_ok example_page s"
    "\<forall>s \<in> set basic_unguarded. query_ok example_page s"
    by (simp_all add: adv_unguarded_def basic_unguarded_def query_ok_def example_page_def
        basic_custom_selector_def)
  have b: "''[data-extension]'' \<in> set extensionSelectors"
    by (simp add: extensionSelectors_def)
  from guarded_faults_isolated
    [where p = example_page and w = "\<lambda>k. Inl denied" and sel = "''[data-extension]''"
       and r = "Inl query_error"] a b
  show ?thesis
    by (simp add: no_globals_page_def)
qed

text \<open>The claim as stated fails where the move-list query throws: the evaluation throws,
  no fragment is returned and the handler answers 500 without data.\<close>

theorem probe_fault_escapes_counterexample:
  "querySelectorAll broken_page ''.moves move, move'' = Inl query_error \<and>
   adv_extract broken_page = Inl query_error \<and>
   basic_extract broken_page = Inl query_error \<and>
   fst (fetchLichessGameAdvanced broken_env game_request) =
     Some (adv_failed (Some (JStr ''abcd1234'')) query_error) \<and>
   status (adv_failed (Some (JStr ''abcd1234'')) query_error) = 500 \<and>
   response_data (adv_failed (Some (JStr ''abcd1234'')) query_error) = None"
  by (simp add: broken_adv_extract broken_basic_extract broken_adv_run adv_failed_fields)
     (simp add: broken_page_def)

text \<open>
  C2. Every entry that the custom-selector scan puts into its fragment has a text field
  of at most 500 characters: \<open>textContent\<close> in the basic variant (cut at 500), \<open>text\<close>
  under each selector key in the advanced variant (cut at 300). In the basic variant
  the entries are those of the matched elements, in order.
\<close>

theorem custom_selector_text_capped:
  "(basic_extract p = Inr d \<longrightarrow>
      (\<forall>entry \<in> set (items (get (get d ''additionalData'') ''extensionElements'')).
         short_text ''textContent'' entry) \<and>
      (\<forall>els. querySelectorAll p basic_custom_selector = Inr els \<and> els \<noteq> [] \<longrightarrow>
         get (get d ''additionalData'') ''extensionElements'' =
           VArray (map basic_custom_element els))) \<and>
   (adv_extract p = Inr d \<longrightarrow>
      (\<forall>sel \<in> set extensionSelectors.
         \<forall>entry \<in> set (items (get (get d ''dom'') (selector_key sel))).
           short_text ''text'' entry))"
proof (intro conjI impI)
  assume "basic_extract p = Inr d"
  then obtain m a c where c: "querySelectorAll p basic_custom_selector = Inr c"
    and d: "d = basic_data p m a c"
    using extract_data(1) by blast
  show "\<forall>entry \<in> set (items (get (get d ''additionalData'') ''extensionElements'')).
          short_text ''textContent'' entry"
    by (simp add: d basic_extensionElements basic_custom_short)
  show "\<forall>els. querySelectorAll p basic_custom_selector = Inr els \<and> els \<noteq> [] \<longrightarrow>
          get (get d ''additionalData'') ''extensionElements'' =
            VArray (map basic_custom_element els)"
    by (simp add: d c basic_extensionElements)
next
  assume "adv_extract p = Inr d"
  then obtain m pl ev rm sc where d: "d = adv_data p m pl ev rm sc"
    using extract_data(2) by blast
  show "\<forall>sel \<in> set extensionSelectors.
          \<forall>entry \<in> set (items (get (get d ''dom'') (selector_key sel))).
            short_text ''text'' entry"
    unfolding d using adv_selector_entries_short by blast
qed

theorem custom_selector_text_capped_witness:
  "basic_extract example_page = Inr example_basic_data \<and>
   querySelectorAll example_page basic_custom_selector = Inr [example_badge] \<and>
   get (get example_basic_data ''additionalData'') ''extensionElements'' =
     VArray [basic_custom_element example_badge] \<and>
   short_text ''textContent'' (basic_custom_element example_badge) \<and>
   get (basic_custom_element example_badge) ''textContent'' = VStr (replicate 500 CHR ''x'') \<and>
   adv_extract example_page = Inr example_adv_data \<and>
   ''[data-extension]'' \<in> set extensionSelectors \<and>
   selector_key ''[data-extension]'' = ''data-extension'' \<and>
   length (textContent example_badge) = 10000 \<and>
   items (get (get example_adv_data ''dom'') ''data-extension'') =
     [adv_custom_element example_badge] \<and>
   short_text ''text'' (adv_custom_element example_badge) \<and>
   get (adv_custom_element example_badge) ''text'' = VStr (replicate 300 CHR ''x'')"
proof -
  have a: "''[data-extension]'' \<in> set extensionSelectors"
    by (simp add: extensionSelectors_def)
  have b: "selector_key ''[data-extension]'' = ''data-extension''"
    by (simp add: selector_key_def)
  have c: "get (adv_custom_element example_badge) ''text'' = VStr (replicate 300 CHR ''x'')"
    by (simp add: adv_custom_element_def example_badge_def substring0_def)
  have q: "querySelectorAll example_page basic_custom_selector = Inr [example_badge]"
    by (simp add: example_page_def basic_custom_selector_def)
  have t: "get (basic_custom_element example_badge) ''textContent'' =
             VStr (replicate 500 CHR ''x'')"
    by (simp add: basic_custom_element_def example_badge_def substring0_def)
  from custom_selector_text_capped [of example_page example_basic_data] q
  have e: "get (get example_basic_data ''additionalData'') ''extensionElements'' =
             VArray [basic_custom_element example_badge] \<and>
           (\<forall>entry \<in> set (items (get (get example_basic_data ''additionalData'')
                                    ''extensionElements'')).
              short_text ''textContent'' entry)"
    by (simp add: example_basic_extract)
  from custom_selector_text_capped [of example_page example_adv_data] a
  have "\<forall>entry \<in> set (items (get (get example_adv_data ''dom'')
                                (selector_key ''[data-extension]''))).
          short_text ''text'' entry"
    by (simp only: example_adv_extract) blast
  then show ?thesis
    using a c e q t
    by (simp add: b example_adv_extract example_basic_extract example_badge_adv
        example_badge_def)
qed




text \<open>
  C6. When the \<open>page-init-data\<close> script element is absent or its trimmed content does not
  parse as JSON, the \<open>pageInitData\<close> fragment of the value returned is \<open>null\<close>, in both
  variants. No other fragment depends on what the lookup of the script element gives:
  with any other lookup \<open>g\<close> in its place (one that finds a valid payload, say) the
  evaluation ends alike on every other fragment.
\<close>

theorem payload_absent_or_invalid_null:
  assumes "payload_absent_or_invalid p"
  shows "(basic_extract p = Inr d \<longrightarrow> get d ''pageInitData'' = VNull) \<and>
         (adv_extract p = Inr d \<longrightarrow> get d ''pageInitData'' = VNull) \<and>
         same_fragments [''extensionData'', ''additionalData'']
           (basic_extract (p\<lparr>getElementById := g\<rparr>)) (basic_extract p) \<and>
         same_fragments
           [''extensionData'', ''dom'', ''localStorage'', ''cookies'', ''computedData'']
           (adv_extract (p\<lparr>getElementById := g\<rparr>)) (adv_extract p)"
proof -
  have "p = (p\<lparr>getElementById := g\<rparr>)\<lparr>getElementById := getElementById p\<rparr>"
    by simp
  then have "same_fragments [''extensionData'', ''additionalData'']
               (basic_extract (p\<lparr>getElementById := g\<rparr>)) (basic_extract p)"
    and "same_fragments
           [''extensionData'', ''dom'', ''localStorage'', ''cookies'', ''computedData'']
           (adv_extract (p\<lparr>getElementById := g\<rparr>)) (adv_extract p)"
    using basic_vary_element [of "p\<lparr>getElementById := g\<rparr>" "getElementById p"]
      adv_vary_element [of "p\<lparr>getElementById := g\<rparr>" "getElementById p"]
    by simp_all
  with payload_null [OF assms] show ?thesis
    by blast
qed

theorem payload_absent_or_invalid_null_witness:
  "payload_absent_or_invalid no_payload_page \<and>
   basic_extract no_payload_page = Inr no_payload_basic_data \<and>
   get no_payload_basic_data ''pageInitData'' = VNull \<and>
   same_fragments [''extensionData'', ''additionalData'']
     (basic_extract example_page) (basic_extract no_payload_page) \<and>
   adv_extract example_page = Inr example_adv_data \<and>
   get example_adv_data ''pageInitData'' = VArray [VNum (Finite 1)] \<and>
   adv_extract no_payload_page = Inr no_payload_adv_data \<and>
   get no_payload_adv_data ''pageInitData'' = VNull \<and>
   same_fragments [''extensionData'', ''dom'', ''localStorage'', ''cookies'', ''computedData'']
     (adv_extract example_page) (adv_extract no_payload_page)"
proof -
  have a: "payload_absent_or_invalid no_payload_page"
    by (simp add: payload_absent_or_invalid_def no_payload_page_def)
  have b: "no_payload_page\<lparr>getElementById := getElementById example_page\<rparr> = example_page"
    by (simp add: no_payload_page_def)
  have c: "get example_adv_data ''pageInitData'' = VArray [VNum (Finite 1)]"
    by (simp add: example_adv_data_def adv_data_pageInit)
       (simp add: pageInit_step_def example_page_def example_script_def trim_def is_space_def
          adv_initial_data_def)
  from payload_absent_or_invalid_null
    [OF a, where d = no_payload_basic_data and g = "getElementById example_page"]
  have e: "get no_payload_basic_data ''pageInitData'' = VNull \<and>
           same_fragments [''extensionData'', ''additionalData'']
             (basic_extract example_page) (basic_extract no_payload_page)"
    by (simp add: b no_payload_basic_extract)
  from payload_absent_or_invalid_null
    [OF a, where d = no_payload_adv_data and g = "getElementById example_page"] a c e
  show ?thesis
    by (simp add: b example_adv_extract no_payload_adv_extract no_payload_basic_extract)
qed

section \<open>Claims about the request handler\<close>

text \<open>
  C3, as amended. The claim says every request without a \<open>gameId\<close> is answered 400. Both
  handlers answer a CORS preflight first: an \<open>OPTIONS\<close> request gets 204 whether or not it
  has a \<open>gameId\<close>. For every request of another kind whose \<open>gameId\<close> is missing or empty
  in the query and in the body, neither handler makes any renderer call (no launch, no
  navigation); the basic handler answers 400, and so does the advanced handler when
  line 250, which converts the raw \<open>waitTime\<close> before \<open>gameId\<close> is checked, returns a
  delay \<open>t\<close>. What the advanced handler answers when that conversion throws is left
  open here.
\<close>

theorem missing_gameId_rejected:
  assumes "http_method req \<noteq> ''OPTIONS''"
    and "missing_or_empty (query_param req ''gameId'')"
    and "missing_or_empty (body_param req ''gameId'')"
  shows "fetchLichessGame env req = (Some basic_missing, []) \<and> status basic_missing = 400 \<and>
         (waitTime_of (js env) req = Inr t \<longrightarrow>
            fetchLichessGameAdvanced env req = (Some adv_missing, [])) \<and>
         status adv_missing = 400 \<and>
         snd (fetchLichessGameAdvanced env req) = []"
  using assms
  by (auto simp: fetchLichessGame_def fetchLichessGameAdvanced_def Let_def missing_or_empty_def
      js_or_def basic_missing_def adv_missing_def split: sum.splits)

theorem missing_gameId_rejected_witness:
  "http_method empty_id_request \<noteq> ''OPTIONS'' \<and>
   missing_or_empty (query_param empty_id_request ''gameId'') \<and>
   missing_or_empty (body_param empty_id_request ''gameId'') \<and>
   waitTime_of (js example_env) empty_id_request = Inr (Finite 5000) \<and>
   fetchLichessGame example_env empty_id_request = (Some basic_missing, []) \<and>
   status basic_missing = 400 \<and>
   fetchLichessGameAdvanced example_env empty_id_request = (Some adv_missing, []) \<and>
   status adv_missing = 400"
proof -
  have w: "waitTime_of (js example_env) empty_id_request = Inr (Finite 5000)"
    by (simp add: waitTime_of_def waitTime_raw_def template_def empty_id_request_def
        query_param_def body_param_def js_or_def parse5000)
  from missing_gameId_rejected
    [where req = empty_id_request and t = "Finite 5000" and env = example_env] w
  show ?thesis
    by (simp add: empty_id_request_def missing_or_empty_def query_param_def body_param_def)
qed

text \<open>The claim as stated fails at a preflight request with no \<open>gameId\<close>: the answer
  is 204, not 400. It also fails in the advanced variant at a request with no \<open>gameId\<close>
  whose \<open>waitTime\<close> has no string form: line 250 throws and no response is sent.\<close>

theorem missing_gameId_preflight_counterexample:
  "query_param options_request ''gameId'' = None \<and>
   body_param options_request ''gameId'' = None \<and>
   map_option status (fst (fetchLichessGame example_env options_request)) = Some 204 \<and>
   map_option status (fst (fetchLichessGameAdvanced example_env options_request)) = Some 204 \<and>
   http_method opaque_wait_request = ''POST'' \<and>
   query_param opaque_wait_request ''gameId'' = None \<and>
   body_param opaque_wait_request ''gameId'' = None \<and>
   fetchLichessGameAdvanced example_env opaque_wait_request = (None, [])"
  by (simp add: opaque_wait_run)
     (simp add: options_request_def query_param_def body_param_def fetchLichessGame_def
        fetchLichessGameAdvanced_def preflight_response_def opaque_wait_request_def)

text \<open>
  C4. Whenever a handler launched the renderer and the launch succeeded, the handler
  calls \<open>close\<close> exactly once, as its last renderer call, and then responds. This covers
  every exit path on which a step between launch and release throws (new page, user
  agent, the template of the URL, navigation, injected script, settle delay,
  extraction, page content), the path on which sending the answer throws after the
  release, and the success path. The renderer's own \<open>close\<close> is taken not to throw.
\<close>

theorem renderer_released_once:
  assumes "h = fetchLichessGame \<or> h = fetchLichessGameAdvanced"
    and "Launch \<in> set (snd (h env req))"
    and "launch env = None"
    and "close env 0 = None"
  shows "count_list (snd (h env req)) Close = 1 \<and> last (snd (h env req)) = Close \<and>
         fst (h env req) \<noteq> None"
  using assms basic_released_once adv_released_once by blast

theorem renderer_released_once_witness:
  "Launch \<in> set (snd (fetchLichessGameAdvanced timeout_env game_request)) \<and>
   launch timeout_env = None \<and> close timeout_env 0 = None \<and>
   count_list (snd (fetchLichessGameAdvanced timeout_env game_request)) Close = 1 \<and>
   last (snd (fetchLichessGameAdvanced timeout_env game_request)) = Close \<and>
   fst (fetchLichessGameAdvanced timeout_env game_request) \<noteq> None"
proof -
  have a: "Launch \<in> set (snd (fetchLichessGameAdvanced timeout_env game_request))"
    by (simp add: timeout_adv_run)
  have b: "launch timeout_env = None" "close timeout_env 0 = None"
    by (simp_all add: timeout_env_def example_env_def)
  from renderer_released_once [OF disjI2 [OF refl] a b] a b show ?thesis
    by simp
qed

text \<open>
  C7. Every response either handler sends satisfies the envelope invariant:
  \<open>success = false\<close> implies that \<open>data\<close> is absent and \<open>error\<close> is present, and
  \<open>success = true\<close> implies that \<open>error\<close> is absent.
\<close>

theorem response_envelope_invariant:
  assumes "h = fetchLichessGame \<or> h = fetchLichessGameAdvanced"
    and "fst (h env req) = Some r"
  shows "envelope_invariant r"
  using assms basic_envelope adv_envelope by blast

theorem response_envelope_invariant_witness:
  "fst (fetchLichessGame timeout_env game_request) =
     Some (basic_failed (Some (JStr ''abcd1234'')) navigation_timeout) \<and>
   envelope_invariant (basic_failed (Some (JStr ''abcd1234'')) navigation_timeout)"
proof -
  have a: "fst (fetchLichessGame timeout_env game_request) =
             Some (basic_failed (Some (JStr ''abcd1234'')) navigation_timeout)"
    by (simp add: timeout_basic_run)
  from response_envelope_invariant [OF disjI1 [OF refl] a] a show ?thesis
    by simp
qed



text \<open>
  C9, as amended. The claim says that the handler never changes the value the evaluation
  returned. That holds for the advanced variant: the data of a 200 response is exactly
  the value the one extraction returned on the settled page. The basic variant adds one
  field to that value after the evaluation, \<open>htmlLength\<close>, the length of the page
  content, and changes no other field.
\<close>

theorem envelope_after_evaluation:
  "(fetchLichessGameAdvanced env req = (Some r, tr) \<and> status r = 200 \<longrightarrow>
      count_list tr EvaluateExtraction = 1 \<and>
      (\<exists>url wt pg0 pg1 pg gameData.
         game_url (js env) (request_gameId req) = Inr url \<and> goto env url = Inr pg0 \<and>
         injected env req pg0 = Inr pg1 \<and>
         waitTime_of (js env) req = Inr wt \<and>
         waitForTimeout env (VNum wt) pg1 = Inr pg \<and>
         adv_extract pg = Inr gameData \<and> response_data r = Some gameData)) \<and>
   (fetchLichessGame env req = (Some r, tr) \<and> status r = 200 \<longrightarrow>
      count_list tr EvaluateExtraction = 1 \<and>
      (\<exists>url pg0 pg gameData html.
         game_url (js env) (request_gameId req) = Inr url \<and> goto env url = Inr pg0 \<and>
         waitForTimeout env (VNum (Finite 3000)) pg0 = Inr pg \<and>
         basic_extract pg = Inr gameData \<and> content env pg = Inr html \<and>
         response_data r =
           Some (put gameData ''htmlLength'' (VNum (Finite (real (length html))))) \<and>
         (\<forall>k. k \<noteq> ''htmlLength'' \<longrightarrow>
            get (put gameData ''htmlLength'' (VNum (Finite (real (length html))))) k =
              get gameData k)))"
proof -
  have adv: "fetchLichessGameAdvanced env req = (Some r, tr) \<and> status r = 200 \<longrightarrow>
      count_list tr EvaluateExtraction = 1 \<and>
      (\<exists>url wt pg0 pg1 pg gameData.
         game_url (js env) (request_gameId req) = Inr url \<and> goto env url = Inr pg0 \<and>
         injected env req pg0 = Inr pg1 \<and>
         waitTime_of (js env) req = Inr wt \<and>
         waitForTimeout env (VNum wt) pg1 = Inr pg \<and>
         adv_extract pg = Inr gameData \<and> response_data r = Some gameData)"
    using adv_success by blast
  have basic: "count_list tr EvaluateExtraction = 1 \<and>
      (\<exists>url pg0 pg gameData html.
         game_url (js env) (request_gameId req) = Inr url \<and> goto env url = Inr pg0 \<and>
         waitForTimeout env (VNum (Finite 3000)) pg0 = Inr pg \<and>
         basic_extract pg = Inr gameData \<and> content env pg = Inr html \<and>
         response_data r =
           Some (put gameData ''htmlLength'' (VNum (Finite (real (length html))))) \<and>
         (\<forall>k. k \<noteq> ''htmlLength'' \<longrightarrow>
            get (put gameData ''htmlLength'' (VNum (Finite (real (length html))))) k =
              get gameData k))"
    if a: "fetchLichessGame env req = (Some r, tr) \<and> status r = 200"
  proof -
    from a basic_success [of env req r tr]
    obtain url pg0 pg gameData html where c: "count_list tr EvaluateExtraction = 1"
      and b: "game_url (js env) (request_gameId req) = Inr url" "goto env url = Inr pg0"
        "waitForTimeout env (VNum (Finite 3000)) pg0 = Inr pg"
        "basic_extract pg = Inr gameData" "content env pg = Inr html"
        "response_data r =
           Some (put gameData ''htmlLength'' (VNum (Finite (real (length html)))))"
      by blast
    have "\<forall>k. k \<noteq> ''htmlLength'' \<longrightarrow>
            get (put gameData ''htmlLength'' (VNum (Finite (real (length html))))) k =
              get gameData k"
      by (simp add: get_put_other)
    with b c show ?thesis
      by blast
  qed
  from adv basic show ?thesis
    by blast
qed

theorem envelope_after_evaluation_witness:
  "fetchLichessGameAdvanced example_env game_request =
     (Some (basic_ok example_env (Some (JStr ''abcd1234'')) example_adv_data),
      [Launch, NewPage, SetRequestInterception, SetUserAgent,
       Goto ''https://lichess.org/abcd1234'', WaitForTimeout (VNum (Finite 5000)),
       EvaluateExtraction, Close]) \<and>
   status (basic_ok example_env (Some (JStr ''abcd1234'')) example_adv_data) = 200 \<and>
   adv_extract example_page = Inr example_adv_data \<and>
   response_data (basic_ok example_env (Some (JStr ''abcd1234'')) example_adv_data) =
     Some example_adv_data \<and>
   fst (fetchLichessGame example_env game_request) =
     Some (basic_ok example_env (Some (JStr ''abcd1234''))
             (put example_basic_data ''htmlLength'' (VNum (Finite 13)))) \<and>
   count_list (snd (fetchLichessGame example_env game_request)) EvaluateExtraction = 1"
proof -
  have a: "status (basic_ok example_env (Some (JStr ''abcd1234'')) example_adv_data) = 200"
    by (simp add: basic_ok_def)
  have b: "status (basic_ok example_env (Some (JStr ''abcd1234''))
                     (put example_basic_data ''htmlLength'' (VNum (Finite 13)))) = 200"
    by (simp add: basic_ok_def)
  from envelope_after_evaluation
    [of example_env game_request
        "basic_ok example_env (Some (JStr ''abcd1234''))
           (put example_basic_data ''htmlLength'' (VNum (Finite 13)))"
        "snd (fetchLichessGame example_env game_request)"]
    b
  have c: "count_list (snd (fetchLichessGame example_env game_request)) EvaluateExtraction = 1"
    by (simp add: example_basic_run)
  from envelope_after_evaluation
    [of example_env game_request
        "basic_ok example_env (Some (JStr ''abcd1234'')) example_adv_data" _]
    example_adv_run a
  have "\<exists>pg gameData. adv_extract pg = Inr gameData \<and>
          response_data (basic_ok example_env (Some (JStr ''abcd1234'')) example_adv_data) =
            Some gameData"
    by blast
  then show ?thesis
    using a c by (simp add: example_adv_run example_adv_extract example_basic_run)
       (simp add: response_data_def basic_ok_def no_fields_def)
qed

text \<open>The claim as stated fails in the basic variant: the extraction of the example
  page returns a value without \<open>htmlLength\<close>, and the response carries that value with
  \<open>htmlLength = 13\<close> added by the handler.\<close>

theorem basic_adds_htmlLength_counterexample:
  "basic_extract example_page = Inr example_basic_data \<and>
   get example_basic_data ''htmlLength'' = VUndefined \<and>
   map_option response_data (fst (fetchLichessGame example_env game_request)) =
     Some (Some (put example_basic_data ''htmlLength'' (VNum (Finite 13)))) \<and>
   get (put example_basic_data ''htmlLength'' (VNum (Finite 13))) ''htmlLength'' =
     VNum (Finite 13)"
proof -
  have o: "is_object example_basic_data"
    by (simp add: example_basic_data_def basic_data_object)
  have "get example_basic_data ''htmlLength'' = get basic_initial_data ''htmlLength''"
    by (simp add: example_basic_data_def basic_data_def basic_frames basic_objects)
  then have u: "get example_basic_data ''htmlLength'' = VUndefined"
    by (simp add: basic_initial_data_def)
  show ?thesis
    using o u
    by (simp add: example_basic_extract example_basic_run response_data_def basic_ok_def
        no_fields_def)
qed

text \<open>
  C10. In the advanced variant the raw \<open>waitTime\<close> is the query value if truthy, else the
  body value if truthy, else the text \<open>5000\<close>, and the delay is \<open>parseInt\<close> of it: for a
  raw value that is the string \<open>s\<close>, or whose \<open>ToString\<close> is \<open>s\<close>, the delay is
  \<open>parseInt(s)\<close>. That is \<open>NaN\<close> when \<open>s\<close> does not begin with a parseable integer,
  and it is the integer in front of \<open>s\<close>, with its sign, as a Number, when \<open>s\<close> has a
  decimal integer in front (below \<open>2^53\<close> the Number is the integer itself). No check
  follows: whenever the handler reaches the settle step, the delay passed to
  \<open>waitForTimeout\<close> is that value as computed (\<open>NaN\<close>, negative or zero alike), and no
  other value is ever passed.
\<close>

theorem waitTime_unvalidated:
  "waitTime_raw req =
     (if truthy (query_param req ''waitTime'') then query_param req ''waitTime''
      else if truthy (body_param req ''waitTime'') then body_param req ''waitTime''
      else Some (JStr ''5000'')) \<and>
   (\<forall>s. waitTime_raw req = Some (JStr s) \<longrightarrow>
      waitTime_of (js env) req = Inr (parseInt_str s)) \<and>
   (\<forall>j s. waitTime_raw req = Some j \<and> to_string (js env) j = Inr s \<longrightarrow>
      waitTime_of (js env) req = Inr (parseInt_str s)) \<and>
   (\<forall>s. \<not> begins_with_integer s \<longrightarrow> parseInt_str s = NaN) \<and>
   (\<forall>ws sg ds rest. integer_text ws sg ds rest \<longrightarrow>
      parseInt_str (ws @ sg @ ds @ rest) =
        (if sg = ''-'' then negate (nearest_double (decimal_value ds))
         else nearest_double (decimal_value ds))) \<and>
   (\<forall>n. n < 2 ^ 53 \<longrightarrow> nearest_double n = Finite (real n)) \<and>
   (\<forall>pg pg' wt. navigated env req pg \<and> injected env req pg = Inr pg' \<and>
               waitTime_of (js env) req = Inr wt \<longrightarrow>
      WaitForTimeout (VNum wt) \<in> set (snd (fetchLichessGameAdvanced env req))) \<and>
   (\<forall>t wt. WaitForTimeout t \<in> set (snd (fetchLichessGameAdvanced env req)) \<and>
           waitTime_of (js env) req = Inr wt \<longrightarrow>
      t = VNum wt)"
proof (intro conjI allI impI)
  show "waitTime_raw req =
     (if truthy (query_param req ''waitTime'') then query_param req ''waitTime''
      else if truthy (body_param req ''waitTime'') then body_param req ''waitTime''
      else Some (JStr ''5000''))"
    by (rule waitTime_raw_cases)
next
  fix s assume "waitTime_raw req = Some (JStr s)"
  then show "waitTime_of (js env) req = Inr (parseInt_str s)"
    by (simp add: waitTime_of_def template_def)
next
  fix j s assume "waitTime_raw req = Some j \<and> to_string (js env) j = Inr s"
  then show "waitTime_of (js env) req = Inr (parseInt_str s)"
    by (simp add: waitTime_of_def template_def)
next
  fix s assume "\<not> begins_with_integer s"
  then show "parseInt_str s = NaN"
    by (rule parseInt_nan)
next
  fix ws sg ds rest assume "integer_text ws sg ds rest"
  then show "parseInt_str (ws @ sg @ ds @ rest) =
        (if sg = ''-'' then negate (nearest_double (decimal_value ds))
         else nearest_double (decimal_value ds))"
    by (rule parseInt_decimal)
next
  fix n :: nat assume "n < 2 ^ 53"
  then show "nearest_double n = Finite (real n)"
    by (simp add: nearest_double_def)
next
  fix pg pg' wt
  assume "navigated env req pg \<and> injected env req pg = Inr pg' \<and>
          waitTime_of (js env) req = Inr wt"
  then show "WaitForTimeout (VNum wt) \<in> set (snd (fetchLichessGameAdvanced env req))"
    using adv_wait_event by blast
next
  fix t wt
  assume "WaitForTimeout t \<in> set (snd (fetchLichessGameAdvanced env req)) \<and>
          waitTime_of (js env) req = Inr wt"
  then show "t = VNum wt"
    using adv_wait_only by blast
qed

theorem waitTime_unvalidated_witness:
  "waitTime_raw wait_request = Some (JStr ''soon'') \<and> \<not> begins_with_integer ''soon'' \<and>
   waitTime_of (js example_env) wait_request = Inr NaN \<and>
   navigated example_env wait_request example_page \<and>
   injected example_env wait_request example_page = Inr example_page \<and>
   WaitForTimeout (VNum NaN) \<in> set (snd (fetchLichessGameAdvanced example_env wait_request)) \<and>
   waitTime_raw negative_wait_request = Some (JStr '' -5s'') \<and>
   integer_text '' '' ''-'' ''5'' ''s'' \<and>
   waitTime_of (js example_env) negative_wait_request = Inr (Finite (- 5)) \<and>
   navigated example_env negative_wait_request example_page \<and>
   WaitForTimeout (VNum (Finite (- 5))) \<in>
     set (snd (fetchLichessGameAdvanced example_env negative_wait_request)) \<and>
   (5000 :: nat) < 2 ^ 53 \<and> nearest_double 5000 = Finite 5000 \<and>
   parseInt_str ''5000'' = Finite 5000 \<and>
   parseInt_str ''0x1F'' = Finite 31 \<and>
   parseInt_str ''9007199254740993'' = Finite 9007199254740992"
proof -
  have a: "waitTime_raw wait_request = Some (JStr ''soon'')"
    by (simp add: waitTime_raw_def wait_request_def query_param_def body_param_def js_or_def)
  have b: "\<not> begins_with_integer ''soon''"
    by (simp add: begins_with_integer_def is_space_def is_decimal_digit_def)
  from waitTime_unvalidated [of wait_request example_env] a b
  have w: "waitTime_of (js example_env) wait_request = Inr NaN"
    by simp
  have u: "game_url (js example_env) (Some (JStr ''abcd1234'')) =
             Inr ''https://lichess.org/abcd1234''"
    by (simp add: game_url_def template_def)
  have c: "navigated example_env wait_request example_page"
    by (simp add: navigated_def w)
       (simp add: request_gameId_def wait_request_def query_param_def body_param_def js_or_def
          u, simp add: example_env_def)
  have d: "injected example_env wait_request example_page = Inr example_page"
    by (simp add: injected_def inject_def wait_request_def body_param_def return_value_def)
  from waitTime_unvalidated [of wait_request example_env] c d w
  have e: "WaitForTimeout (VNum NaN) \<in>
             set (snd (fetchLichessGameAdvanced example_env wait_request))"
    by blast
  have a': "waitTime_raw negative_wait_request = Some (JStr '' -5s'')"
    by (simp add: waitTime_raw_def negative_wait_request_def query_param_def body_param_def
        js_or_def)
  have b': "integer_text '' '' ''-'' ''5'' ''s''"
    by (simp add: integer_text_def is_space_def is_decimal_digit_def)
  from waitTime_unvalidated [of negative_wait_request example_env] b'
  have "parseInt_str ('' '' @ ''-'' @ ''5'' @ ''s'') =
          negate (nearest_double (decimal_value ''5''))"
    by (simp only: refl if_True)
  then have p: "parseInt_str '' -5s'' = Finite (- 5)"
    by (simp add: decimal_value_def nearest_double_def negate_def)
  from waitTime_unvalidated [of negative_wait_request example_env] a' p
  have w': "waitTime_of (js example_env) negative_wait_request = Inr (Finite (- 5))"
    by simp
  have c': "navigated example_env negative_wait_request example_page"
    by (simp add: navigated_def w')
       (simp add: request_gameId_def negative_wait_request_def query_param_def body_param_def
          js_or_def u, simp add: example_env_def)
  have d': "injected example_env negative_wait_request example_page = Inr example_page"
    by (simp add: injected_def inject_def negative_wait_request_def body_param_def
        return_value_def)
  from waitTime_unvalidated [of negative_wait_request example_env] c' d' w'
  have e': "WaitForTimeout (VNum (Finite (- 5))) \<in>
              set (snd (fetchLichessGameAdvanced example_env negative_wait_request))"
    by blast
  have h: "parseInt_str ''0x1F'' = Finite 31"
    by (simp add: parseInt_str_def trimStart_def is_space_def Let_def is_radix_digit_def
        digit_val_def radix_value_def nearest_double_def)
  have r: "parseInt_str ''9007199254740993'' = Finite 9007199254740992"
    by (simp add: parseInt_str_def trimStart_def is_space_def Let_def is_radix_digit_def
        digit_val_def radix_value_def nearest_double_def bit_length.simps)
  have n: "(5000 :: nat) < 2 ^ 53"
    by simp
  with waitTime_unvalidated [of negative_wait_request example_env]
  have n': "nearest_double 5000 = Finite (real (5000 :: nat))"
    by blast
  from a b w c d e a' b' w' c' e' h r n n' show ?thesis
    by (simp add: parse5000)
qed

end
